theory Spec2Isabelle
  imports Complex_Main "HOL-Library.Word"
begin

section \<open>Data model\<close>

text \<open>
  The types of \<^verbatim>\<open>types.ts\<close>, \<^verbatim>\<open>services/gemini.ts\<close> and the browser objects
  that \<^verbatim>\<open>services/metadataProcessor.ts\<close> reads. An optional TypeScript property
  (\<^verbatim>\<open>x?: T\<close>) is a value of type \<open>T option\<close>, \<open>None\<close> standing for \<^verbatim>\<open>undefined\<close>.

  A browser \<^verbatim>\<open>File\<close> has a name, a MIME type, a modification time in epoch
  milliseconds (any integer) and its bytes; \<^verbatim>\<open>file.size\<close> is the number of bytes.
\<close>

type_synonym byte = "8 word"

record File =
  file_name :: string
  file_type :: string
  file_lastModified :: int
  file_content :: "byte list"

definition file_size :: "File \<Rightarrow> nat" where
  "file_size f = length (file_content f)"

text \<open>
  A date string is either the ISO-8601 rendering of a valid time value
  (\<^verbatim>\<open>new Date(t).toISOString()\<close>, kept as \<open>t\<close>) or a text supplied by the AI service.
\<close>

datatype date_string = ISOString int | Verbatim string

datatype RiskLevel = low | medium | high

datatype FileType = image | video

datatype Status = completed | failed | processing | pending

text \<open>Values of the open mapping \<^verbatim>\<open>technicalData: Record<string, any>\<close>.\<close>

datatype jvalue =
    JNull
  | JBool bool
  | JNum rat
  | JStr string
  | JArr "jvalue list"
  | JObj "(string \<times> jvalue) list"

type_synonym technical = "string \<rightharpoonup> jvalue"

record ProcessOptions =
  safeMode :: bool
  removeGPS :: bool
  changeDates :: bool
  generateFakeData :: bool
  preserveQuality :: bool

text \<open>
  \<^verbatim>\<open>GeminiAnalysis\<close>. The value returned by \<^verbatim>\<open>JSON.parse(text) as GeminiAnalysis\<close>
  is cast, not checked. At run time it is \<^verbatim>\<open>null\<close> or a value whose properties the
  program reads; every property may be absent, also those the interface declares as
  required. (A number, a string, a boolean or an array read like an object without these
  properties.) The property \<^verbatim>\<open>recommendations\<close>, which \<^verbatim>\<open>processVideo\<close> spreads into
  an array, is kept as the JSON value it is; the others, which the program copies or tests
  with \<^verbatim>\<open>||\<close>, are kept at their declared types.
\<close>

datatype 'a parsed = JsonNull | JsonObject 'a

record SuggestedFakeMetadata =
  sf_device :: "string option"
  sf_location :: "string option"
  sf_creationDate :: "date_string option"
  sf_cameraModel :: "string option"

record GeminiAnalysis =
  ai_sensitiveData :: "string list option"
  ai_recommendations :: "jvalue option"
  deviceInfo :: "string option"
  locationInfo :: "string option"
  ai_riskLevel :: "RiskLevel option"
  confidence :: "rat option"
  suggestedFakeMetadata :: "SuggestedFakeMetadata option"

text \<open>
  The properties of the value that \<^verbatim>\<open>JSON.parse\<close> returns for the decoy request, when it
  is not \<^verbatim>\<open>null\<close>.
\<close>

record ParsedDecoy =
  pd_device :: "string option"
  pd_location :: "string option"
  pd_creationDate :: "string option"
  pd_technicalData :: "technical option"

text \<open>
  The \<^verbatim>\<open>Partial<FileMetadata>\<close> that \<^verbatim>\<open>generateFakeMetadata\<close> builds: the five
  properties it can set.
\<close>

record PartialFileMetadata =
  fake_device :: "string option"
  fake_location :: "string option"
  fake_creationDate :: "string option"
  fake_technicalData :: "technical option"
  fake_generatedFakeData :: "bool option"

record FileMetadata =
  filename :: string
  mimeType :: string
  originalSize :: nat
  processedSize :: "nat option"
  sensitiveData :: "string list option"
  recommendations :: "jvalue option"
  format :: "string option"
  creationDate :: "date_string option"
  modificationDate :: "date_string option"
  lastModified :: "int option"
  device :: "string option"
  location :: "string option"
  hasGPS :: "bool option"
  hasFaces :: "bool option"
  hasSensitiveData :: "bool option"
  safeModeApplied :: "bool option"
  generatedFakeData :: "bool option"
  fileType :: "FileType option"
  videoProcessingNote :: "string option"
  technicalData :: "technical option"
  riskLevel :: "RiskLevel option"

text \<open>
  The \<^verbatim>\<open>id\<close> templates \<^verbatim>\<open>img_${Date.now()}_${Math.random()...}\<close>,
  \<^verbatim>\<open>vid_${Date.now()}\<close> and \<^verbatim>\<open>err_${Date.now()}_${Math.random()}\<close>, kept as the
  values they are built from.
\<close>

datatype file_id = ImgId int rat | VidId int | ErrId int rat

record ProcessedFile =
  pf_id :: file_id
  originalFile :: File
  processedFile :: "File option"
  metadata :: FileMetadata
  error :: "string option"
  status :: Status
  processedAt :: "date_string option"
  progress :: "nat option"

section \<open>The environment\<close>

text \<open>
  A promise is resolved with a value, rejected with an \<^verbatim>\<open>Error\<close> (its message), or
  never settled.
\<close>

datatype 'a promise = Resolved 'a | RejectedWith string | Pending

text \<open>
  What one \<^verbatim>\<open>ai.models.generateContent\<close> request does, as far as the client code
  can tell: the request fails (it throws, for whatever reason on the transport or the
  service side), the response has no text (\<^verbatim>\<open>!text\<close>: undefined or empty), the text is
  one on which \<^verbatim>\<open>JSON.parse\<close> throws, or the text is JSON and \<^verbatim>\<open>JSON.parse\<close> returns
  the given value. The request is taken to settle, and the client object
  (\<^verbatim>\<open>GeminiService.getInstance()\<close>) to exist.
\<close>

datatype 'a generateContent =
    RequestFails string
  | NoText
  | NotJSON string
  | Parsed 'a

text \<open>
  Everything outside the program that the processing of one file depends on: the canvas,
  file reader, image decoder and encoder of the browser, the two AI requests, the readings
  of the clock (one per call site of \<^verbatim>\<open>Date.now()\<close> / \<^verbatim>\<open>new Date()\<close>), the draws of
  \<^verbatim>\<open>Math.random()\<close>, and the texts that the JavaScript engine gives to the errors it
  throws itself: the \<^verbatim>\<open>RangeError\<close> of \<^verbatim>\<open>toISOString\<close> on an invalid date, the
  \<^verbatim>\<open>TypeError\<close> of reading a property of \<^verbatim>\<open>null\<close> and the \<^verbatim>\<open>TypeError\<close> of spreading
  a value that is not iterable. The clock is that of a running browser: its readings are
  valid time values after 1971 (\<open>clockReading\<close> below), so that the dates computed from
  the clock alone are valid and \<^verbatim>\<open>toISOString\<close> does not throw on them.
\<close>

record world =
  getContext2d :: bool
  readAsDataURL :: bool
  decodeImage :: "(nat \<times> nat) option"
  analysisRequest :: "GeminiAnalysis parsed generateContent"
  decoyRequest :: "ParsedDecoy parsed generateContent"
  toBlob :: "string \<Rightarrow> rat \<Rightarrow> byte list option"
  now_report :: int
  now_simulate :: int
  now_fakeDate :: int
  now_changeDates :: int
  now_output :: int
  now_id :: int
  now_processedAt :: int
  now_error :: int
  random_fakeDate :: rat
  random_id :: rat
  random_error :: rat
  invalidTimeMessage :: string
  nullPropertyMessage :: string
  notIterableMessage :: string

text \<open>
  The static members \<^verbatim>\<open>MetadataProcessor.canvas\<close> and \<^verbatim>\<open>MetadataProcessor.ctx\<close>:
  the canvas with its width and height, and whether a 2D context was obtained.
\<close>

record statics =
  canvas :: "(nat \<times> nat) option"
  ctx :: "unit option"

section \<open>JavaScript primitives\<close>

definition startsWith :: "string \<Rightarrow> string \<Rightarrow> bool" where
  "startsWith s p = (take (length p) s = p)"

text \<open>\<^verbatim>\<open>s.split(c)\<close> for a one-character separator.\<close>

fun split_on :: "char \<Rightarrow> string \<Rightarrow> string list" where
  "split_on c [] = [[]]"
| "split_on c (x # xs) =
     (if x = c then [] # split_on c xs
      else (let r = split_on c xs in (x # hd r) # tl r))"

text \<open>
  \<^verbatim>\<open>s.toUpperCase()\<close> on the printable ASCII characters a \<^verbatim>\<open>File\<close>'s type consists of.
\<close>

definition toUpperCase :: "string \<Rightarrow> string" where
  "toUpperCase s =
     map (\<lambda>c. let n = (of_char c :: nat) in if 97 \<le> n \<and> n \<le> 122 then char_of (n - 32) else c) s"

text \<open>A string operand of \<^verbatim>\<open>||\<close> is truthy when it is defined and not empty.\<close>

definition truthy :: "string option \<Rightarrow> bool" where
  "truthy s = (case s of None \<Rightarrow> False | Some v \<Rightarrow> v \<noteq> [])"

text \<open>\<^verbatim>\<open>a || 'literal'\<close>.\<close>

definition or_literal :: "string option \<Rightarrow> string \<Rightarrow> string" where
  "or_literal s d = (case s of None \<Rightarrow> d | Some v \<Rightarrow> if v = [] then d else v)"

text \<open>
  The operand of \<^verbatim>\<open>||\<close> as a JSON value: \<^verbatim>\<open>undefined\<close>, \<^verbatim>\<open>null\<close>, \<^verbatim>\<open>false\<close>, 0 and
  the empty string are falsy, everything else (also an empty array) is truthy.
\<close>

definition truthyValue :: "jvalue option \<Rightarrow> bool" where
  "truthyValue v =
     (case v of
        None \<Rightarrow> False
      | Some JNull \<Rightarrow> False
      | Some (JBool b) \<Rightarrow> b
      | Some (JNum n) \<Rightarrow> n \<noteq> 0
      | Some (JStr s) \<Rightarrow> s \<noteq> []
      | Some (JArr xs) \<Rightarrow> True
      | Some (JObj kvs) \<Rightarrow> True)"

text \<open>
  The code points of a string, as iteration over it yields them: in the UTF-8 bytes of the
  string, every byte from 0x80 to 0xBF continues the code point before it.
\<close>

definition continuation :: "char \<Rightarrow> bool" where
  "continuation c = (128 \<le> (of_char c :: nat) \<and> (of_char c :: nat) < 192)"

function codePoints :: "string \<Rightarrow> string list" where
  "codePoints [] = []"
| "codePoints (c # cs) =
     (c # takeWhile continuation cs) # codePoints (dropWhile continuation cs)"
  by pat_completeness auto
termination
  by (relation "measure length") (auto simp: le_imp_less_Suc length_dropWhile_le)

text \<open>
  The elements that the spread \<^verbatim>\<open>[...v]\<close> takes from a value: those of an array, the code
  points of a string; any other value is not iterable and the spread throws a
  \<^verbatim>\<open>TypeError\<close> (\<open>None\<close>).
\<close>

fun iterate :: "jvalue \<Rightarrow> jvalue list option" where
  "iterate (JArr xs) = Some xs"
| "iterate (JStr s) = Some (map JStr (codePoints s))"
| "iterate _ = None"

text \<open>\<^verbatim>\<open>[...(v || [])]\<close>.\<close>

definition spreadOrEmpty :: "jvalue option \<Rightarrow> jvalue list option" where
  "spreadOrEmpty v =
     (case v of
        None \<Rightarrow> Some []
      | Some x \<Rightarrow> if truthyValue (Some x) then iterate x else Some [])"

text \<open>
  A time value is valid within 8.64e15 milliseconds of the epoch; on any other
  \<^verbatim>\<open>new Date(t).toISOString()\<close> throws a \<^verbatim>\<open>RangeError\<close>.
\<close>

definition validTime :: "int \<Rightarrow> bool" where
  "validTime t = (\<bar>t\<bar> \<le> 8640000000000000)"

text \<open>
  A reading of the clock of a running browser: a valid time value, after 1971. The time
  a year before it is valid too.
\<close>

definition clockReading :: "int \<Rightarrow> bool" where
  "clockReading t = (31536000000 \<le> t \<and> t \<le> 8640000000000000)"

text \<open>The decimal digits of a non-negative integer, as a template literal prints it.\<close>

fun decimal :: "nat \<Rightarrow> string" where
  "decimal n =
     (if n < 10 then [''0123456789'' ! n]
      else decimal (n div 10) @ [''0123456789'' ! (n mod 10)])"

declare decimal.simps [simp del]

text \<open>
  Numbers are IEEE 754 doubles. A double is kept as the rational it denotes; the literals
  0.95, 0.8 and 0.7 are kept as the decimal fractions they are written as, since the program
  only passes them on. An arithmetic operation returns the double nearest to the exact
  result, ties going to the even significand: with \<open>2 ^ e \<le> \<bar>x\<bar> < 2 ^ (e + 1)\<close>, the
  doubles around \<open>x\<close> are the multiples of \<open>2 ^ (e - 52)\<close>. (The exponent is not bounded
  here: the numbers of this program lie far from the subnormal range and from overflow.)
\<close>

definition roundTiesToEven :: "rat \<Rightarrow> int" where
  "roundTiesToEven m =
     (let f = \<lfloor>m\<rfloor>; d = m - of_int f
      in if d < 1 / 2 then f else if 1 / 2 < d then f + 1 else if even f then f else f + 1)"

fun bitLength :: "nat \<Rightarrow> nat" where
  "bitLength n = (if n = 0 then 0 else Suc (bitLength (n div 2)))"

declare bitLength.simps [simp del]

text \<open>The \<open>e\<close> with \<open>2 ^ e \<le> x < 2 ^ (e + 1)\<close>, for a positive \<open>x\<close>.\<close>

definition exponent :: "rat \<Rightarrow> int" where
  "exponent x =
     (if 1 \<le> x then int (bitLength (nat \<lfloor>x\<rfloor>)) - 1
      else - int (bitLength (nat (\<lceil>1 / x\<rceil> - 1))))"

definition double :: "rat \<Rightarrow> rat" where
  "double x =
     (if x = 0 then 0
      else let e = exponent \<bar>x\<bar>
           in if e \<le> 52
              then sgn x * of_int (roundTiesToEven (\<bar>x\<bar> * 2 ^ nat (52 - e))) / 2 ^ nat (52 - e)
              else sgn x * of_int (roundTiesToEven (\<bar>x\<bar> / 2 ^ nat (e - 52))) * 2 ^ nat (e - 52))"

text \<open>
  The time value of \<^verbatim>\<open>new Date(x)\<close> for a number \<open>x\<close> that is not an integer: the
  fraction is dropped (rounding towards zero).
\<close>

definition timeClip :: "rat \<Rightarrow> int" where
  "timeClip x = (if 0 \<le> x then \<lfloor>x\<rfloor> else \<lceil>x\<rceil>)"

section \<open>The Risk Analysis Client (\<^verbatim>\<open>GeminiService\<close>)\<close>

text \<open>
  The Arabic string literals of \<^verbatim>\<open>simulateAnalysis\<close>, as their UTF-8 bytes: the two
  findings (the second has a variant for images and one for other files) and the three
  recommendations.
\<close>

definition finding_filename_digits :: string where
  "finding_filename_digits = map char_of
    [216, 168, 216, 181, 217, 133, 216, 169, 32, 216, 167, 216, 179, 217, 133, 32, 216, 167,
     217, 132, 217, 133, 217, 132, 217, 129, 32, 216, 170, 216, 173, 216, 170, 217, 136, 217,
     138, 32, 216, 185, 217, 132, 217, 137, 32, 216, 163, 216, 177, 217, 130, 216, 167, 217,
     133, 32, 217, 130, 216, 175, 32, 216, 170, 216, 175, 217, 132, 32, 216, 185, 217, 132,
     217, 137, 32, 216, 167, 217, 132, 216, 170, 216, 167, 216, 177, 217, 138, 216, 174 :: nat]"

definition finding_exif :: string where
  "finding_exif = map char_of
    [216, 167, 216, 173, 216, 170, 217, 133, 216, 167, 217, 132, 217, 138, 216, 169, 32, 217,
     136, 216, 172, 217, 136, 216, 175, 32, 216, 168, 217, 138, 216, 167, 217, 134, 216, 167,
     216, 170, 32, 69, 88, 73, 70 :: nat]"

definition finding_container :: string where
  "finding_container = map char_of
    [216, 168, 217, 138, 216, 167, 217, 134, 216, 167, 216, 170, 32, 216, 167, 217, 132, 216,
     173, 216, 167, 217, 136, 217, 138, 216, 169, 32, 216, 167, 217, 132, 216, 170, 217, 130,
     217, 134, 217, 138, 216, 169 :: nat]"

definition rec_remove_metadata :: string where
  "rec_remove_metadata = map char_of
    [216, 165, 216, 178, 216, 167, 217, 132, 216, 169, 32, 216, 167, 217, 132, 216, 168, 217,
     138, 216, 167, 217, 134, 216, 167, 216, 170, 32, 216, 167, 217, 132, 217, 136, 216, 181,
     217, 129, 217, 138, 216, 169, 32, 217, 129, 217, 136, 216, 177, 216, 167, 217, 139 :: nat]"

definition rec_rename_file :: string where
  "rec_rename_file = map char_of
    [216, 170, 216, 186, 217, 138, 217, 138, 216, 177, 32, 216, 167, 216, 179, 217, 133, 32,
     216, 167, 217, 132, 217, 133, 217, 132, 217, 129, 32, 217, 132, 217, 138, 217, 131, 217,
     136, 217, 134, 32, 216, 185, 216, 180, 217, 136, 216, 167, 216, 166, 217, 138, 216, 167,
     217, 139 :: nat]"

definition rec_geo_masking :: string where
  "rec_geo_masking = map char_of
    [216, 167, 216, 179, 216, 170, 216, 174, 216, 175, 216, 167, 217, 133, 32, 216, 167, 217,
     132, 216, 170, 217, 133, 217, 136, 217, 138, 217, 135, 32, 216, 167, 217, 132, 216, 172,
     216, 186, 216, 177, 216, 167, 217, 129, 217, 138 :: nat]"

definition simulateAnalysis :: "world \<Rightarrow> File \<Rightarrow> GeminiAnalysis" where
  "simulateAnalysis w file =
     (let isImage = startsWith (file_type file) ''image/'' in
      \<lparr> ai_sensitiveData =
          Some [finding_filename_digits, if isImage then finding_exif else finding_container],
        ai_recommendations =
          Some (JArr [JStr rec_remove_metadata, JStr rec_rename_file, JStr rec_geo_masking]),
        deviceInfo = None,
        locationInfo = None,
        ai_riskLevel = Some medium,
        confidence = Some (7 / 10),
        suggestedFakeMetadata = Some
          \<lparr> sf_device = Some ''iPhone 14 Pro'',
            sf_location = Some ''Stockholm, Sweden'',
            sf_creationDate = Some (ISOString (now_simulate w - 31536000000)),
            sf_cameraModel = None \<rparr> \<rparr>)"

text \<open>
  The \<^verbatim>\<open>try\<close> block of \<^verbatim>\<open>analyzeFile\<close>: \<open>Inl\<close> is a thrown error. The prompt
  contains \<^verbatim>\<open>new Date(file.lastModified).toISOString()\<close>, which throws before the request
  is sent when the time is not valid; apart from that the prompt only influences the
  service, whose answer is part of the world.
\<close>

definition analyzeFile_try :: "world \<Rightarrow> File \<Rightarrow> string + GeminiAnalysis parsed" where
  "analyzeFile_try w file =
     (if \<not> validTime (file_lastModified file) then Inl (invalidTimeMessage w)
      else case analysisRequest w of
             RequestFails e \<Rightarrow> Inl e
           | NoText \<Rightarrow> Inl ''No AI response text''
           | NotJSON e \<Rightarrow> Inl e
           | Parsed a \<Rightarrow> Inr a)"

definition analyzeFile :: "world \<Rightarrow> File \<Rightarrow> GeminiAnalysis parsed promise" where
  "analyzeFile w file =
     (case analyzeFile_try w file of
        Inr a \<Rightarrow> Resolved a
      | Inl e \<Rightarrow> Resolved (JsonObject (simulateAnalysis w file)))"

definition static_decoy :: PartialFileMetadata where
  "static_decoy =
     \<lparr> fake_device = Some ''Shielded Forensic Hardware'',
       fake_location = Some ''Protected Network'',
       fake_creationDate = None,
       fake_technicalData = None,
       fake_generatedFakeData = Some True \<rparr>"

text \<open>The empty object \<^verbatim>\<open>{}\<close>.\<close>

definition empty_decoy :: PartialFileMetadata where
  "empty_decoy =
     \<lparr> fake_device = None, fake_location = None, fake_creationDate = None,
       fake_technicalData = None, fake_generatedFakeData = None \<rparr>"

text \<open>
  The \<^verbatim>\<open>try\<close> block of \<^verbatim>\<open>generateFakeMetadata\<close>. Reading \<^verbatim>\<open>parsed.device\<close> of
  \<^verbatim>\<open>null\<close> throws.
\<close>

definition generateFakeMetadata_try :: "world \<Rightarrow> string + PartialFileMetadata" where
  "generateFakeMetadata_try w =
     (case decoyRequest w of
        RequestFails e \<Rightarrow> Inl e
      | NoText \<Rightarrow> Inr empty_decoy
      | NotJSON e \<Rightarrow> Inl e
      | Parsed JsonNull \<Rightarrow> Inl (nullPropertyMessage w)
      | Parsed (JsonObject parsed) \<Rightarrow> Inr
          \<lparr> fake_device = pd_device parsed,
            fake_location = pd_location parsed,
            fake_creationDate = pd_creationDate parsed,
            fake_technicalData = pd_technicalData parsed,
            fake_generatedFakeData = Some True \<rparr>)"

definition generateFakeMetadata :: "world \<Rightarrow> PartialFileMetadata promise" where
  "generateFakeMetadata w =
     (case generateFakeMetadata_try w of
        Inr fake \<Rightarrow> Resolved fake
      | Inl e \<Rightarrow> Resolved static_decoy)"

section \<open>The Sanitization Engine (\<^verbatim>\<open>MetadataProcessor\<close>)\<close>

definition initializeCanvas :: "world \<Rightarrow> statics \<Rightarrow> statics" where
  "initializeCanvas w st =
     (if canvas st = None
      then st\<lparr> canvas := Some (300, 150),
               ctx := (if getContext2d w then Some () else None) \<rparr>
      else st)"

text \<open>\<^verbatim>\<open>file.type.split('/')[1]?.toUpperCase() || dflt\<close>.\<close>

definition formatTag :: "string \<Rightarrow> string \<Rightarrow> string" where
  "formatTag t dflt =
     (case split_on CHR ''/'' t of
        _ # sub # _ \<Rightarrow> or_literal (Some (toUpperCase sub)) dflt
      | _ \<Rightarrow> dflt)"

subsection \<open>The image path\<close>

text \<open>
  The object literal that \<^verbatim>\<open>processImage\<close> starts the report from. Its properties are
  evaluated in order: \<^verbatim>\<open>creationDate\<close> throws on a \<^verbatim>\<open>lastModified\<close> that is not a valid
  time, \<^verbatim>\<open>sensitiveData\<close> on a report that is \<^verbatim>\<open>null\<close> (\<open>Inl\<close>, with the text of the
  error).
\<close>

definition imageReport :: "world \<Rightarrow> File \<Rightarrow> GeminiAnalysis \<Rightarrow> FileMetadata" where
  "imageReport w file aiReport =
     \<lparr> filename = file_name file,
       mimeType = file_type file,
       originalSize = file_size file,
       processedSize = None,
       sensitiveData = ai_sensitiveData aiReport,
       recommendations = ai_recommendations aiReport,
       format = Some (formatTag (file_type file) ''IMG''),
       creationDate = Some (ISOString (file_lastModified file)),
       modificationDate = Some (ISOString (now_report w)),
       lastModified = Some (file_lastModified file),
       device = Some (or_literal (deviceInfo aiReport) ''Original Trace Detected''),
       location = Some (or_literal (locationInfo aiReport) ''Potential Geotag''),
       hasGPS = None,
       hasFaces = None,
       hasSensitiveData = None,
       safeModeApplied = None,
       generatedFakeData = None,
       fileType = Some image,
       videoProcessingNote = None,
       technicalData = None,
       riskLevel = ai_riskLevel aiReport \<rparr>"

definition imageMetadata :: "world \<Rightarrow> File \<Rightarrow> GeminiAnalysis parsed \<Rightarrow> string + FileMetadata" where
  "imageMetadata w file aiReport =
     (if \<not> validTime (file_lastModified file) then Inl (invalidTimeMessage w)
      else case aiReport of
             JsonNull \<Rightarrow> Inl (nullPropertyMessage w)
           | JsonObject a \<Rightarrow> Inr (imageReport w file a))"

text \<open>The four \<^verbatim>\<open>if (options. ...)\<close> blocks, in the order of the source.\<close>

definition applySafeMode :: "ProcessOptions \<Rightarrow> FileMetadata \<Rightarrow> FileMetadata" where
  "applySafeMode options fileMetadata =
     (if safeMode options
      then fileMetadata\<lparr> safeModeApplied := Some True,
                         sensitiveData := Some [],
                         riskLevel := Some low,
                         device := Some ''Sanitized Device'' \<rparr>
      else fileMetadata)"

definition applyRemoveGPS :: "ProcessOptions \<Rightarrow> FileMetadata \<Rightarrow> FileMetadata" where
  "applyRemoveGPS options fileMetadata =
     (if removeGPS options
      then fileMetadata\<lparr> hasGPS := Some False, location := Some ''Stripped'' \<rparr>
      else fileMetadata)"

text \<open>
  The body of the \<^verbatim>\<open>generateFakeData\<close> block, once the decoy \<open>fake\<close> has arrived.
\<close>

definition overlayFake :: "PartialFileMetadata \<Rightarrow> FileMetadata \<Rightarrow> FileMetadata" where
  "overlayFake fake fileMetadata =
     fileMetadata\<lparr>
       device := (if truthy (fake_device fake) then fake_device fake else device fileMetadata),
       location :=
         (if truthy (fake_location fake) then fake_location fake else location fileMetadata),
       creationDate :=
         (if truthy (fake_creationDate fake)
          then map_option Verbatim (fake_creationDate fake)
          else creationDate fileMetadata),
       generatedFakeData := Some True,
       technicalData := fake_technicalData fake \<rparr>"

definition applyChangeDates :: "world \<Rightarrow> ProcessOptions \<Rightarrow> FileMetadata \<Rightarrow> FileMetadata" where
  "applyChangeDates w options fileMetadata =
     (if changeDates options
      then (let fakeDate =
                  ISOString (timeClip
                    (double (of_int (now_fakeDate w) - double (random_fakeDate w * 31536000000))))
            in fileMetadata\<lparr> creationDate := Some fakeDate,
                              modificationDate := Some (ISOString (now_changeDates w)) \<rparr>)
      else fileMetadata)"

text \<open>The callback of \<^verbatim>\<open>canvas.toBlob\<close> for a blob that is not null.\<close>

definition imageResult ::
  "world \<Rightarrow> File \<Rightarrow> ProcessOptions \<Rightarrow> nat \<Rightarrow> nat \<Rightarrow> FileMetadata \<Rightarrow> byte list \<Rightarrow> ProcessedFile" where
  "imageResult w file options width height fileMetadata blob =
     (let processedFile' =
            \<lparr> file_name = ''shielded_'' @ file_name file,
              file_type = file_type file,
              file_lastModified =
                (if changeDates options then now_output w else file_lastModified file),
              file_content = blob \<rparr>;
          spread = (case technicalData fileMetadata of None \<Rightarrow> Map.empty | Some td \<Rightarrow> td)
      in \<lparr> pf_id = ImgId (now_id w) (random_id w),
           originalFile = file,
           processedFile = Some processedFile',
           metadata = fileMetadata\<lparr>
             processedSize := Some (length blob),
             technicalData := Some (spread
               (''engine'' \<mapsto> JStr ''ShieldEngine v4 (Canvas Redraw)'',
                ''binaryStripped'' \<mapsto> JBool True,
                ''fingerprintObfuscated'' \<mapsto> JBool True,
                ''resolution'' \<mapsto> JStr (decimal width @ ''x'' @ decimal height))) \<rparr>,
           error = None,
           status = completed,
           processedAt = Some (ISOString (now_processedAt w)),
           progress = None \<rparr>)"

text \<open>
  \<open>finishImage\<close> is the end of \<^verbatim>\<open>img.onload\<close>, from the \<^verbatim>\<open>changeDates\<close> block to
  the call of \<^verbatim>\<open>canvas.toBlob\<close>; \<open>onloadImage\<close> is the handler from the AI request on. The handler is an
  \<^verbatim>\<open>async\<close> function that nobody awaits: when it throws (building the report), or if a
  promise it awaits were rejected or never settled, neither \<^verbatim>\<open>resolve\<close> nor
  \<^verbatim>\<open>reject\<close> is called and the promise of \<^verbatim>\<open>processImage\<close> stays pending.
\<close>

definition finishImage ::
  "world \<Rightarrow> File \<Rightarrow> ProcessOptions \<Rightarrow> nat \<Rightarrow> nat \<Rightarrow> FileMetadata \<Rightarrow> ProcessedFile promise" where
  "finishImage w file options width height fileMetadata =
     (let fileMetadata' = applyChangeDates w options fileMetadata;
          quality = (if preserveQuality options then 95 / 100 else 8 / 10)
      in case toBlob w (file_type file) quality of
           None \<Rightarrow> RejectedWith ''Fingerprint stripping failed''
         | Some blob \<Rightarrow> Resolved (imageResult w file options width height fileMetadata' blob))"

definition onloadImage ::
  "world \<Rightarrow> File \<Rightarrow> ProcessOptions \<Rightarrow> nat \<Rightarrow> nat \<Rightarrow> ProcessedFile promise" where
  "onloadImage w file options width height =
     (case analyzeFile w file of
        Resolved aiReport \<Rightarrow>
          (case imageMetadata w file aiReport of
             Inl e \<Rightarrow> Pending
           | Inr fileMetadata0 \<Rightarrow>
               (let fileMetadata = applyRemoveGPS options (applySafeMode options fileMetadata0)
                in if generateFakeData options
                   then (case generateFakeMetadata w of
                           Resolved fake \<Rightarrow>
                             finishImage w file options width height
                               (overlayFake fake fileMetadata)
                         | _ \<Rightarrow> Pending)
                   else finishImage w file options width height fileMetadata))
      | _ \<Rightarrow> Pending)"

definition processImage ::
  "statics \<Rightarrow> world \<Rightarrow> File \<Rightarrow> ProcessOptions \<Rightarrow> statics \<times> ProcessedFile promise" where
  "processImage st0 w file options =
     (let st = initializeCanvas w st0
      in if \<not> readAsDataURL w then (st, RejectedWith ''File reading error'')
         else case decodeImage w of
                None \<Rightarrow> (st, RejectedWith ''Media decode failure'')
              | Some (width, height) \<Rightarrow>
                  if canvas st = None \<or> ctx st = None
                  then (st, RejectedWith ''Canvas engine unavailable'')
                  else (st\<lparr> canvas := Some (width, height) \<rparr>,
                        onloadImage w file options width height))"

subsection \<open>The video path\<close>

text \<open>
  The object literal that \<^verbatim>\<open>processVideo\<close> starts the report from, given the elements
  of the spread. Its properties are evaluated in order: \<^verbatim>\<open>creationDate\<close> throws on a
  \<^verbatim>\<open>lastModified\<close> that is not a valid time, \<^verbatim>\<open>sensitiveData\<close> on a report that is
  \<^verbatim>\<open>null\<close>, \<^verbatim>\<open>recommendations\<close> on recommendations that are truthy and not iterable.
\<close>

definition videoReport :: "world \<Rightarrow> File \<Rightarrow> GeminiAnalysis \<Rightarrow> jvalue list \<Rightarrow> FileMetadata" where
  "videoReport w file aiReport recs =
     \<lparr> filename = file_name file,
       mimeType = file_type file,
       originalSize = file_size file,
       processedSize = Some (file_size file),
       sensitiveData = ai_sensitiveData aiReport,
       recommendations = Some (JArr (recs @ [JStr ''Scrubbing video container headers...''])),
       format = Some (formatTag (file_type file) ''VID''),
       creationDate = Some (ISOString (file_lastModified file)),
       modificationDate = Some (ISOString (now_report w)),
       lastModified = Some (file_lastModified file),
       device = Some (or_literal (deviceInfo aiReport) ''Video Footprint Detected''),
       location = Some ''Likely Embedded'',
       hasGPS = None,
       hasFaces = None,
       hasSensitiveData = None,
       safeModeApplied = None,
       generatedFakeData = None,
       fileType = Some video,
       videoProcessingNote = None,
       technicalData = None,
       riskLevel = ai_riskLevel aiReport \<rparr>"

definition videoMetadata :: "world \<Rightarrow> File \<Rightarrow> GeminiAnalysis parsed \<Rightarrow> string + FileMetadata" where
  "videoMetadata w file aiReport =
     (if \<not> validTime (file_lastModified file) then Inl (invalidTimeMessage w)
      else case aiReport of
             JsonNull \<Rightarrow> Inl (nullPropertyMessage w)
           | JsonObject a \<Rightarrow>
               (case spreadOrEmpty (ai_recommendations a) of
                  None \<Rightarrow> Inl (notIterableMessage w)
                | Some recs \<Rightarrow> Inr (videoReport w file a recs)))"

definition overlayFakeVideo :: "PartialFileMetadata \<Rightarrow> FileMetadata \<Rightarrow> FileMetadata" where
  "overlayFakeVideo fake fileMetadata =
     fileMetadata\<lparr>
       device := Some (or_literal (fake_device fake) ''Decoy Device''),
       location := Some (or_literal (fake_location fake) ''Synthetic Location''),
       generatedFakeData := Some True \<rparr>"

text \<open>
  The end of \<^verbatim>\<open>processVideo\<close>, after the two-second delay: the copy of the file and
  the returned object.
\<close>

definition videoResult :: "world \<Rightarrow> File \<Rightarrow> ProcessOptions \<Rightarrow> FileMetadata \<Rightarrow> ProcessedFile" where
  "videoResult w file options fileMetadata =
     (let newFile =
            \<lparr> file_name = ''shielded_'' @ file_name file,
              file_type = file_type file,
              file_lastModified =
                (if changeDates options then now_output w else file_lastModified file),
              file_content = file_content file \<rparr>
      in \<lparr> pf_id = VidId (now_id w),
           originalFile = file,
           processedFile = Some newFile,
           metadata = fileMetadata\<lparr>
             technicalData := Some
               [''method'' \<mapsto> JStr ''Header-Level Redaction'',
                ''engine'' \<mapsto> JStr ''ShieldEngine Video v1'',
                ''containerSafe'' \<mapsto> JBool True] \<rparr>,
           error = None,
           status = completed,
           processedAt = Some (ISOString (now_processedAt w)),
           progress = None \<rparr>)"

text \<open>
  \<^verbatim>\<open>processVideo\<close> is an \<^verbatim>\<open>async\<close> function: an error it throws, or a promise it
  awaits that is rejected, rejects its own promise.
\<close>

definition processVideo :: "world \<Rightarrow> File \<Rightarrow> ProcessOptions \<Rightarrow> ProcessedFile promise" where
  "processVideo w file options =
     (case analyzeFile w file of
        Resolved aiReport \<Rightarrow>
          (case videoMetadata w file aiReport of
             Inl e \<Rightarrow> RejectedWith e
           | Inr fileMetadata \<Rightarrow>
               if generateFakeData options
               then (case generateFakeMetadata w of
                       Resolved fake \<Rightarrow>
                         Resolved
                           (videoResult w file options (overlayFakeVideo fake fileMetadata))
                     | RejectedWith e \<Rightarrow> RejectedWith e
                     | Pending \<Rightarrow> Pending)
               else Resolved (videoResult w file options fileMetadata))
      | RejectedWith e \<Rightarrow> RejectedWith e
      | Pending \<Rightarrow> Pending)"

section \<open>The Batch Orchestrator\<close>

text \<open>
  The body of the \<^verbatim>\<open>try\<close> block in the loop of \<^verbatim>\<open>processBatch\<close>: the dispatch on the
  MIME type. The \<^verbatim>\<open>throw\<close> of the last branch has the effect of a rejected promise.
\<close>

definition process ::
  "statics \<Rightarrow> world \<Rightarrow> File \<Rightarrow> ProcessOptions \<Rightarrow> statics \<times> ProcessedFile promise" where
  "process st w file options =
     (if startsWith (file_type file) ''image/'' then processImage st w file options
      else if startsWith (file_type file) ''video/'' then (st, processVideo w file options)
      else (st, RejectedWith ''Unsupported format''))"

text \<open>The object that the \<^verbatim>\<open>catch\<close> block pushes.\<close>

definition failedFile :: "world \<Rightarrow> File \<Rightarrow> string \<Rightarrow> ProcessedFile" where
  "failedFile w file message =
     \<lparr> pf_id = ErrId (now_error w) (random_error w),
       originalFile = file,
       processedFile = None,
       metadata =
         \<lparr> filename = file_name file,
           mimeType = file_type file,
           originalSize = file_size file,
           processedSize = None, sensitiveData = None, recommendations = None,
           format = None, creationDate = None, modificationDate = None,
           lastModified = None, device = None, location = None, hasGPS = None,
           hasFaces = None, hasSensitiveData = None, safeModeApplied = None,
           generatedFakeData = None, fileType = None, videoProcessingNote = None,
           technicalData = None, riskLevel = None \<rparr>,
       error = Some message,
       status = failed,
       processedAt = None,
       progress = None \<rparr>"

text \<open>
  The loop of \<^verbatim>\<open>processBatch\<close>. The \<open>i\<close>-th file is processed in the world \<open>env i\<close>;
  \<open>results\<close> is the array that \<^verbatim>\<open>push\<close> extends. The loop awaits each promise: on a
  promise that never settles it does not return (\<open>None\<close>). Every rejection is an
  \<^verbatim>\<open>Error\<close> and nothing in the \<^verbatim>\<open>catch\<close> block throws, so the loop itself has no
  rejected outcome.
\<close>

fun batchLoop ::
  "(nat \<Rightarrow> world) \<Rightarrow> ProcessOptions \<Rightarrow> nat \<Rightarrow> File list \<Rightarrow> statics \<Rightarrow> ProcessedFile list
     \<Rightarrow> (statics \<times> ProcessedFile list) option" where
  "batchLoop env options i [] st results = Some (st, results)"
| "batchLoop env options i (file # files) st results =
     (case process st (env i) file options of
        (st', Resolved r) \<Rightarrow> batchLoop env options (Suc i) files st' (results @ [r])
      | (st', RejectedWith message) \<Rightarrow>
          batchLoop env options (Suc i) files st' (results @ [failedFile (env i) file message])
      | (st', Pending) \<Rightarrow> None)"

definition processBatch ::
  "(nat \<Rightarrow> world) \<Rightarrow> statics \<Rightarrow> File list \<Rightarrow> ProcessOptions
     \<Rightarrow> (statics \<times> ProcessedFile list) option" where
  "processBatch env st files options = batchLoop env options 0 files st []"

text \<open>The value a promise was resolved with, if it was.\<close>

definition resolved :: "'a promise \<Rightarrow> 'a option" where
  "resolved p = (case p of Resolved x \<Rightarrow> Some x | _ \<Rightarrow> None)"

section \<open>Scenarios\<close>

text \<open>
  Concrete files, options and worlds on which the theorems below are instantiated: a JPEG
  photo, an MP4 clip and a PDF document; a browser in which every step succeeds and whose
  encoder returns five bytes at quality 0.95 and three at any other quality, with an AI
  service that cannot be reached; the error texts are those of one engine.
\<close>

definition photo_jpg :: File where
  "photo_jpg =
     \<lparr> file_name = ''photo.jpg'', file_type = ''image/jpeg'',
       file_lastModified = 1700000000000, file_content = [255, 216, 255, 224] \<rparr>"

definition clip_mp4 :: File where
  "clip_mp4 =
     \<lparr> file_name = ''clip.mp4'', file_type = ''video/mp4'',
       file_lastModified = 1700000000000, file_content = [0, 0, 0, 24, 102] \<rparr>"

definition report_pdf :: File where
  "report_pdf =
     \<lparr> file_name = ''report.pdf'', file_type = ''application/pdf'',
       file_lastModified = 1700000000000, file_content = [37, 80, 68, 70] \<rparr>"

definition no_options :: ProcessOptions where
  "no_options =
     \<lparr> safeMode = False, removeGPS = False, changeDates = False,
       generateFakeData = False, preserveQuality = False \<rparr>"

text \<open>The options of the two precedence scenarios of the specification.\<close>

definition safe_gps_options :: ProcessOptions where
  "safe_gps_options =
     \<lparr> safeMode = True, removeGPS = True, changeDates = False,
       generateFakeData = False, preserveQuality = True \<rparr>"

definition safe_gps_fake_options :: ProcessOptions where
  "safe_gps_fake_options =
     \<lparr> safeMode = True, removeGPS = True, changeDates = False,
       generateFakeData = True, preserveQuality = True \<rparr>"

definition all_options :: ProcessOptions where
  "all_options =
     \<lparr> safeMode = True, removeGPS = True, changeDates = True,
       generateFakeData = True, preserveQuality = True \<rparr>"

definition uninitialized :: statics where
  "uninitialized = \<lparr> canvas = None, ctx = None \<rparr>"

definition sample_encoder :: "string \<Rightarrow> rat \<Rightarrow> byte list option" where
  "sample_encoder t q = (if q = 95 / 100 then Some [1, 2, 3, 4, 5] else Some [1, 2, 3])"

text \<open>An encoder that agrees with it at quality 0.95 and fails at every other quality.\<close>

definition strict_encoder :: "string \<Rightarrow> rat \<Rightarrow> byte list option" where
  "strict_encoder t q = (if q = 95 / 100 then Some [1, 2, 3, 4, 5] else None)"

definition offline_world :: world where
  "offline_world =
     \<lparr> getContext2d = True,
       readAsDataURL = True,
       decodeImage = Some (640, 480),
       analysisRequest = RequestFails ''Failed to fetch'',
       decoyRequest = RequestFails ''Failed to fetch'',
       toBlob = sample_encoder,
       now_report = 1762000000001,
       now_simulate = 1762000000000,
       now_fakeDate = 1762000000002,
       now_changeDates = 1762000000003,
       now_output = 1762000000004,
       now_id = 1762000000005,
       now_processedAt = 1762000000006,
       now_error = 1762000000007,
       random_fakeDate = 1 / 2,
       random_id = 1 / 4,
       random_error = 3 / 4,
       invalidTimeMessage = ''Invalid time value'',
       nullPropertyMessage = ''Cannot read properties of null'',
       notIterableMessage = ''Spread syntax requires ...iterable[Symbol.iterator] to be a function'' \<rparr>"

text \<open>The same world with a draw of \<^verbatim>\<open>Math.random()\<close> next to zero.\<close>

definition tiny_draw_world :: world where
  "tiny_draw_world = offline_world\<lparr>random_fakeDate := 1 / 2 ^ 52\<rparr>"

text \<open>An analysis response that is JSON but has none of the properties of the schema.\<close>

definition empty_analysis :: GeminiAnalysis where
  "empty_analysis =
     \<lparr> ai_sensitiveData = None, ai_recommendations = None, deviceInfo = None,
       locationInfo = None, ai_riskLevel = None, confidence = None,
       suggestedFakeMetadata = None \<rparr>"

text \<open>
  A decoy response with a device, a creation date and technical properties, and no
  location.
\<close>

definition lens_decoy :: ParsedDecoy where
  "lens_decoy =
     \<lparr> pd_device = Some ''Canon EOS R5'', pd_location = None,
       pd_creationDate = Some ''2019-05-01T10:00:00.000Z'',
       pd_technicalData = Some [''lens'' \<mapsto> JStr ''RF 50mm'', ''engine'' \<mapsto> JStr ''none''] \<rparr>"

definition offline_env :: "nat \<Rightarrow> world" where
  "offline_env i = offline_world"

text \<open>
  A service that answers every analysis request with the JSON text \<^verbatim>\<open>null\<close>, and an
  image and a video whose \<^verbatim>\<open>lastModified\<close> is one millisecond beyond the range of dates.
\<close>

definition null_world :: world where
  "null_world = offline_world\<lparr>analysisRequest := Parsed JsonNull\<rparr>"

definition null_env :: "nat \<Rightarrow> world" where
  "null_env i = null_world"

definition late_jpg :: File where
  "late_jpg =
     \<lparr> file_name = ''late.jpg'', file_type = ''image/jpeg'',
       file_lastModified = 8640000000000001, file_content = [255, 216, 255, 224] \<rparr>"

definition late_mp4 :: File where
  "late_mp4 =
     \<lparr> file_name = ''late.mp4'', file_type = ''video/mp4'',
       file_lastModified = 8640000000000001, file_content = [0, 0, 0, 24, 102] \<rparr>"

section \<open>Auxiliary facts\<close>

lemmas eval_defs = processBatch_def process_def processImage_def processVideo_def
  onloadImage_def finishImage_def imageResult_def videoResult_def analyzeFile_def
  analyzeFile_try_def generateFakeMetadata_def generateFakeMetadata_try_def
  imageMetadata_def videoMetadata_def validTime_def simulateAnalysis_def spreadOrEmpty_def
  truthyValue_def
  initializeCanvas_def startsWith_def failedFile_def Let_def resolved_def
  photo_jpg_def clip_mp4_def report_pdf_def no_options_def uninitialized_def
  safe_gps_options_def safe_gps_fake_options_def all_options_def
  offline_world_def offline_env_def sample_encoder_def

subsection \<open>The two requests never reject\<close>

lemma analyzeFile_resolves: "\<exists>a. analyzeFile w f = Resolved a"
  by (simp add: analyzeFile_def split: sum.splits)

lemma generateFakeMetadata_resolves: "\<exists>a. generateFakeMetadata w = Resolved a"
  by (simp add: generateFakeMetadata_def split: sum.splits)

subsection \<open>The loop\<close>

text \<open>The loop only ever extends the array of results.\<close>

lemma batchLoop_acc:
  "batchLoop env options i files st (acc @ results) =
     map_option (\<lambda>(s, rs). (s, acc @ rs)) (batchLoop env options i files st results)"
proof (induction files arbitrary: i st results)
  case Nil
  show ?case by simp
next
  case (Cons f files)
  obtain st' p where pr: "process st (env i) f options = (st', p)"
    by (cases "process st (env i) f options")
  show ?case
  proof (cases p)
    case (Resolved r)
    with pr Cons.IH [of "Suc i" st' "results @ [r]"] show ?thesis by simp
  next
    case (RejectedWith m)
    with pr Cons.IH [of "Suc i" st' "results @ [failedFile (env i) f m]"] show ?thesis by simp
  next
    case Pending
    with pr show ?thesis by simp
  qed
qed

lemma batchLoop_length:
  "batchLoop env options i files st acc = Some (s, rs) \<Longrightarrow>
     \<exists>more. rs = acc @ more \<and> length more = length files"
proof (induction files arbitrary: i st acc)
  case Nil
  then show ?case by simp
next
  case (Cons f files)
  obtain st' p where pr: "process st (env i) f options = (st', p)"
    by (cases "process st (env i) f options")
  show ?case
  proof (cases p)
    case (Resolved r)
    with pr Cons.prems
    have "batchLoop env options (Suc i) files st' (acc @ [r]) = Some (s, rs)" by simp
    from Cons.IH [OF this] obtain more where "rs = (acc @ [r]) @ more"
      and "length more = length files" by blast
    then show ?thesis by (intro exI [of _ "r # more"]) simp
  next
    case (RejectedWith m)
    let ?e = "failedFile (env i) f m"
    from RejectedWith pr Cons.prems
    have "batchLoop env options (Suc i) files st' (acc @ [?e]) = Some (s, rs)" by simp
    from Cons.IH [OF this] obtain more where "rs = (acc @ [?e]) @ more"
      and "length more = length files" by blast
    then show ?thesis by (intro exI [of _ "?e # more"]) simp
  next
    case Pending
    with pr Cons.prems show ?thesis by simp
  qed
qed

lemma batchLoop_append:
  "batchLoop env options i (xs @ ys) st acc =
     (case batchLoop env options i xs st acc of
        None \<Rightarrow> None
      | Some (s, rs) \<Rightarrow> batchLoop env options (i + length xs) ys s rs)"
proof (induction xs arbitrary: i st acc)
  case Nil
  show ?case by simp
next
  case (Cons f xs)
  obtain st' p where pr: "process st (env i) f options = (st', p)"
    by (cases "process st (env i) f options")
  show ?case
  proof (cases p)
    case (Resolved r)
    with pr Cons.IH [of "Suc i" st' "acc @ [r]"] show ?thesis
      by (simp split: option.splits)
  next
    case (RejectedWith m)
    with pr Cons.IH [of "Suc i" st' "acc @ [failedFile (env i) f m]"] show ?thesis
      by (simp split: option.splits)
  next
    case Pending
    with pr show ?thesis by simp
  qed
qed

text \<open>
  In a batch that returns, the first \<open>k\<close> files alone return the first \<open>k\<close> entries, and
  the entry of the \<open>k\<close>-th file is what its own processing settles with.
\<close>

lemma batchLoop_nth:
  assumes k: "k < length files"
    and run: "batchLoop env options 0 files st [] = Some (st', rs)"
  shows "\<exists>s. batchLoop env options 0 (take k files) st [] = Some (s, take k rs) \<and>
           (case snd (process s (env k) (files ! k) options) of
              Resolved r \<Rightarrow> rs ! k = r
            | RejectedWith message \<Rightarrow> rs ! k = failedFile (env k) (files ! k) message
            | Pending \<Rightarrow> False)"
proof -
  let ?x = "files ! k" and ?rest = "drop (Suc k) files"
  have split: "files = take k files @ ?x # ?rest"
    using k by (simp add: id_take_nth_drop)
  have app: "batchLoop env options 0 files st [] =
      (case batchLoop env options 0 (take k files) st [] of
         None \<Rightarrow> None
       | Some (s, pre) \<Rightarrow> batchLoop env options (0 + length (take k files)) (?x # ?rest) s pre)"
    using batchLoop_append [of env options 0 "take k files" "?x # ?rest" st "[]"] split
    by simp
  with run obtain s pre where pre: "batchLoop env options 0 (take k files) st [] = Some (s, pre)"
    and step: "batchLoop env options k (?x # ?rest) s pre = Some (st', rs)"
    using k by (auto split: option.splits)
  from batchLoop_length [OF pre] k have lpre: "length pre = k" by auto
  obtain s' p where pr: "process s (env k) ?x options = (s', p)"
    by (cases "process s (env k) ?x options")
  show ?thesis
  proof (cases p)
    case (Resolved r)
    with step pr have "batchLoop env options (Suc k) ?rest s' (pre @ [r]) = Some (st', rs)"
      by simp
    from batchLoop_length [OF this] obtain more where "rs = pre @ r # more" by auto
    with lpre pre pr Resolved show ?thesis by (auto simp: nth_append)
  next
    case (RejectedWith m)
    let ?e = "failedFile (env k) ?x m"
    from RejectedWith step pr
    have "batchLoop env options (Suc k) ?rest s' (pre @ [?e]) = Some (st', rs)"
      by simp
    from batchLoop_length [OF this] obtain more where "rs = pre @ ?e # more" by auto
    with lpre pre pr RejectedWith show ?thesis by (auto simp: nth_append)
  next
    case Pending
    with step pr show ?thesis by simp
  qed
qed

subsection \<open>What a resolved result looks like\<close>

lemma finishImage_Resolved:
  "finishImage w f options wd ht md = Resolved r \<Longrightarrow>
     originalFile r = f \<and> status r = completed \<and> error r = None \<and> processedFile r \<noteq> None"
  by (auto simp: finishImage_def imageResult_def Let_def split: option.splits)

lemma onloadImage_Resolved:
  "onloadImage w f options wd ht = Resolved r \<Longrightarrow>
     originalFile r = f \<and> status r = completed \<and> error r = None \<and> processedFile r \<noteq> None"
  unfolding onloadImage_def Let_def
  by (auto split: promise.splits sum.splits if_splits dest: finishImage_Resolved)

lemma processImage_Resolved:
  "snd (processImage st w f options) = Resolved r \<Longrightarrow>
     originalFile r = f \<and> status r = completed \<and> error r = None \<and> processedFile r \<noteq> None"
  unfolding processImage_def Let_def
  by (auto split: option.splits if_splits dest: onloadImage_Resolved)

lemma processVideo_Resolved:
  "processVideo w f options = Resolved r \<Longrightarrow>
     originalFile r = f \<and> status r = completed \<and> error r = None \<and> processedFile r \<noteq> None"
  unfolding processVideo_def Let_def
  by (auto simp: videoResult_def Let_def split: promise.splits sum.splits if_splits)

lemma process_Resolved:
  "snd (process st w f options) = Resolved r \<Longrightarrow>
     originalFile r = f \<and> status r = completed \<and> error r = None \<and> processedFile r \<noteq> None"
  unfolding process_def
  by (auto split: if_splits dest: processImage_Resolved processVideo_Resolved)

section \<open>Properties of the batch\<close>

text \<open>
  Whenever \<open>processBatch\<close> returns, the array it returns has one entry per file; the
  \<open>k\<close>-th entry belongs to the \<open>k\<close>-th file and is what the processing of that file alone
  settles with, in the state the first \<open>k\<close> files left behind: the resolved
  \<open>ProcessedFile\<close>, with status \<open>completed\<close> and an output file, or, when the processing
  is rejected with a message, an entry with status \<open>failed\<close>, that message as error and no
  output file. The entries of the first \<open>k\<close> files are those of the batch that stops after
  them.
\<close>

lemma processBatch_entries:
  assumes run: "processBatch env st files options = Some (st', rs)"
  shows "length rs = length files \<and>
     (\<forall>k < length files.
        originalFile (rs ! k) = files ! k \<and>
        (\<exists>s. processBatch env st (take k files) options = Some (s, take k rs) \<and>
           (case snd (process s (env k) (files ! k) options) of
              Resolved r \<Rightarrow>
                rs ! k = r \<and> status r = completed \<and> error r = None \<and> processedFile r \<noteq> None
            | RejectedWith message \<Rightarrow>
                status (rs ! k) = failed \<and> error (rs ! k) = Some message \<and>
                processedFile (rs ! k) = None
            | Pending \<Rightarrow> False)))"
proof -
  from run have run': "batchLoop env options 0 files st [] = Some (st', rs)"
    by (simp add: processBatch_def)
  from batchLoop_length [OF run'] have len: "length rs = length files" by simp
  have "originalFile (rs ! k) = files ! k \<and>
        (\<exists>s. processBatch env st (take k files) options = Some (s, take k rs) \<and>
           (case snd (process s (env k) (files ! k) options) of
              Resolved r \<Rightarrow>
                rs ! k = r \<and> status r = completed \<and> error r = None \<and> processedFile r \<noteq> None
            | RejectedWith message \<Rightarrow>
                status (rs ! k) = failed \<and> error (rs ! k) = Some message \<and>
                processedFile (rs ! k) = None
            | Pending \<Rightarrow> False))" if k: "k < length files" for k
  proof -
    obtain s where pre: "batchLoop env options 0 (take k files) st [] = Some (s, take k rs)"
      and entry: "case snd (process s (env k) (files ! k) options) of
              Resolved r \<Rightarrow> rs ! k = r
            | RejectedWith message \<Rightarrow> rs ! k = failedFile (env k) (files ! k) message
            | Pending \<Rightarrow> False"
      using batchLoop_nth [OF k run'] by blast
    show ?thesis
    proof (cases "snd (process s (env k) (files ! k) options)")
      case (Resolved r)
      with entry process_Resolved [OF Resolved] pre show ?thesis
        by (auto simp: processBatch_def)
    next
      case (RejectedWith m)
      with entry pre show ?thesis
        by (auto simp: processBatch_def failedFile_def)
    next
      case Pending
      with entry show ?thesis by simp
    qed
  qed
  with len show ?thesis by blast
qed

text \<open>
  C3. The batch does not always return. When the handler \<^verbatim>\<open>img.onload\<close> of an image
  throws while it builds the report (the AI report is \<^verbatim>\<open>null\<close>, or \<^verbatim>\<open>lastModified\<close> is
  not a valid time), the error escapes the \<^verbatim>\<open>try\<close> of \<^verbatim>\<open>reader.onload\<close>: the promise of
  \<open>processImage\<close> never settles, \<open>processBatch\<close> awaits it for ever, and neither this file
  nor the files after it get an entry. The same two errors in \<open>processVideo\<close> reject its
  promise, and the batch records the video as \<open>failed\<close> and goes on.
\<close>

theorem processBatch_pending_on_image_error:
  "processBatch null_env uninitialized [photo_jpg, report_pdf] no_options = None \<and>
   processBatch offline_env uninitialized [late_jpg, report_pdf] no_options = None \<and>
   map_option (map status \<circ> snd)
     (processBatch null_env uninitialized [clip_mp4, report_pdf] no_options)
     = Some [failed, failed] \<and>
   map_option (map status \<circ> snd)
     (processBatch offline_env uninitialized [late_mp4, report_pdf] no_options)
     = Some [failed, failed]"
  by (simp add: eval_defs null_world_def null_env_def late_jpg_def late_mp4_def)

text \<open>
  C2. When the batch reaches a file whose MIME type begins with neither \<open>image/\<close> nor
  \<open>video/\<close> (the files before it have been processed), it appends the entry that the
  \<^verbatim>\<open>catch\<close> block builds for the message \<open>Unsupported format\<close>: status \<open>failed\<close>, that
  error text, no output file. Nothing is raised and nothing stays pending at this file;
  and in every batch that returns, the entry of such a file is this one.
\<close>

theorem unsupported_format_fails:
  assumes k: "k < length files"
    and noimg: "\<not> startsWith (file_type (files ! k)) ''image/''"
    and novid: "\<not> startsWith (file_type (files ! k)) ''video/''"
    and before: "processBatch env st (take k files) options = Some (s, pre)"
  shows "(\<exists>e. processBatch env st (take (Suc k) files) options = Some (s, pre @ [e]) \<and>
            originalFile e = files ! k \<and> status e = failed \<and>
            error e = Some ''Unsupported format'' \<and> processedFile e = None) \<and>
         (\<forall>st' rs. processBatch env st files options = Some (st', rs) \<longrightarrow>
            originalFile (rs ! k) = files ! k \<and> status (rs ! k) = failed \<and>
            error (rs ! k) = Some ''Unsupported format'' \<and> processedFile (rs ! k) = None)"
proof (rule conjI)
  let ?e = "failedFile (env k) (files ! k) ''Unsupported format''"
  have rej: "process s' (env k) (files ! k) options = (s', RejectedWith ''Unsupported format'')"
    for s'
    using noimg novid by (simp add: process_def)
  have tk: "take (Suc k) files = take k files @ [files ! k]"
    using k by (simp add: take_Suc_conv_app_nth)
  have lk: "length (take k files) = k" using k by simp
  have "batchLoop env options 0 (take k files @ [files ! k]) st []
          = batchLoop env options k [files ! k] s pre"
    using before k batchLoop_append [of env options 0 "take k files" "[files ! k]" st "[]"]
    by (simp add: processBatch_def min_absorb2)
  then have "processBatch env st (take (Suc k) files) options = Some (s, pre @ [?e])"
    unfolding processBatch_def tk using rej [of s] by simp
  moreover have "originalFile ?e = files ! k \<and> status ?e = failed \<and>
            error ?e = Some ''Unsupported format'' \<and> processedFile ?e = None"
    by (simp add: failedFile_def)
  ultimately show "\<exists>e. processBatch env st (take (Suc k) files) options = Some (s, pre @ [e]) \<and>
            originalFile e = files ! k \<and> status e = failed \<and>
            error e = Some ''Unsupported format'' \<and> processedFile e = None"
    by blast
next
  show "\<forall>st' rs. processBatch env st files options = Some (st', rs) \<longrightarrow>
            originalFile (rs ! k) = files ! k \<and> status (rs ! k) = failed \<and>
            error (rs ! k) = Some ''Unsupported format'' \<and> processedFile (rs ! k) = None"
  proof (intro allI impI)
    fix st' rs
    assume run: "processBatch env st files options = Some (st', rs)"
    then have run': "batchLoop env options 0 files st [] = Some (st', rs)"
      by (simp add: processBatch_def)
    have rej: "snd (process s' (env k) (files ! k) options)
                 = RejectedWith ''Unsupported format''" for s'
      using noimg novid by (simp add: process_def)
    obtain s' where "case snd (process s' (env k) (files ! k) options) of
                Resolved r \<Rightarrow> rs ! k = r
              | RejectedWith message \<Rightarrow> rs ! k = failedFile (env k) (files ! k) message
              | Pending \<Rightarrow> False"
      using batchLoop_nth [OF k run'] by blast
    with rej [of s'] have "rs ! k = failedFile (env k) (files ! k) ''Unsupported format''"
      by simp
    then show "originalFile (rs ! k) = files ! k \<and> status (rs ! k) = failed \<and>
              error (rs ! k) = Some ''Unsupported format'' \<and> processedFile (rs ! k) = None"
      by (simp add: failedFile_def)
  qed
qed

theorem unsupported_format_fails_witness:
  "(1::nat) < length [photo_jpg, report_pdf, clip_mp4] \<and>
   \<not> startsWith (file_type ([photo_jpg, report_pdf, clip_mp4] ! 1)) ''image/'' \<and>
   \<not> startsWith (file_type ([photo_jpg, report_pdf, clip_mp4] ! 1)) ''video/'' \<and>
   (\<exists>s r0 e. processBatch offline_env uninitialized (take 1 [photo_jpg, report_pdf, clip_mp4])
        no_options = Some (s, [r0]) \<and>
      processBatch offline_env uninitialized (take (Suc 1) [photo_jpg, report_pdf, clip_mp4])
        no_options = Some (s, [r0, e]) \<and>
      originalFile e = report_pdf \<and> status e = failed \<and>
      error e = Some ''Unsupported format'' \<and> processedFile e = None) \<and>
   map_option (map status \<circ> snd)
     (processBatch offline_env uninitialized [photo_jpg, report_pdf, clip_mp4] no_options)
     = Some [completed, failed, completed]"
proof -
  let ?fs = "[photo_jpg, report_pdf, clip_mp4]"
  have k: "(1::nat) < length ?fs" by simp
  have noimg: "\<not> startsWith (file_type (?fs ! 1)) ''image/''"
    by (simp add: startsWith_def report_pdf_def)
  have novid: "\<not> startsWith (file_type (?fs ! 1)) ''video/''"
    by (simp add: startsWith_def report_pdf_def)
  obtain s r0 where before:
    "processBatch offline_env uninitialized (take 1 ?fs) no_options = Some (s, [r0])"
    by (simp add: eval_defs)
  from unsupported_format_fails [OF k noimg novid before, THEN conjunct1]
  obtain e where "processBatch offline_env uninitialized (take (Suc 1) ?fs) no_options
        = Some (s, [r0] @ [e])"
    "originalFile e = ?fs ! 1" "status e = failed"
    "error e = Some ''Unsupported format''" "processedFile e = None"
    by blast
  with before have "\<exists>s r0 e. processBatch offline_env uninitialized (take 1 ?fs) no_options
        = Some (s, [r0]) \<and>
      processBatch offline_env uninitialized (take (Suc 1) ?fs) no_options = Some (s, [r0, e]) \<and>
      originalFile e = report_pdf \<and> status e = failed \<and>
      error e = Some ''Unsupported format'' \<and> processedFile e = None"
    by auto
  moreover have "map_option (map status \<circ> snd)
     (processBatch offline_env uninitialized ?fs no_options) = Some [completed, failed, completed]"
    by (simp add: eval_defs)
  ultimately show ?thesis using k noimg novid by blast
qed

section \<open>Properties of the Risk Analysis Client\<close>

text \<open>
  C4, as the code has it. \<open>analyzeFile\<close> never rejects and never stays pending. When the
  request fails, when the response has no text and when the text is not JSON, it
  resolves with the local fallback of \<open>simulateAnalysis\<close>: risk level \<open>medium\<close>,
  confidence 0.7 and two findings, the first fixed and the second one of two fixed
  strings, according to whether the type of the file begins with \<open>image/\<close>. It does the
  same when the prompt cannot be built because \<^verbatim>\<open>lastModified\<close> is not a valid time. A
  text that is JSON is returned as parsed: the client validates nothing against the schema.
\<close>

theorem analyzeFile_never_rejects:
  "(\<exists>a. analyzeFile w f = Resolved a) \<and>
   (case analysisRequest w of
      Parsed a \<Rightarrow>
        analyzeFile w f = Resolved
          (if validTime (file_lastModified f) then a else JsonObject (simulateAnalysis w f))
    | _ \<Rightarrow> analyzeFile w f = Resolved (JsonObject (simulateAnalysis w f))) \<and>
   ai_riskLevel (simulateAnalysis w f) = Some medium \<and>
   confidence (simulateAnalysis w f) = Some (7 / 10) \<and>
   ai_sensitiveData (simulateAnalysis w f) =
     Some [finding_filename_digits,
           if startsWith (file_type f) ''image/'' then finding_exif else finding_container]"
  by (simp add: analyzeFile_def analyzeFile_try_def simulateAnalysis_def Let_def
      split: generateContent.splits)

theorem analyzeFile_never_rejects_witness:
  "analyzeFile offline_world photo_jpg
     = Resolved (JsonObject (simulateAnalysis offline_world photo_jpg)) \<and>
   analyzeFile (offline_world\<lparr>analysisRequest := NoText\<rparr>) photo_jpg
     = Resolved (JsonObject
         (simulateAnalysis (offline_world\<lparr>analysisRequest := NoText\<rparr>) photo_jpg)) \<and>
   ai_sensitiveData (simulateAnalysis offline_world photo_jpg)
     = Some [finding_filename_digits, finding_exif] \<and>
   ai_sensitiveData (simulateAnalysis offline_world clip_mp4)
     = Some [finding_filename_digits, finding_container]"
  using analyzeFile_never_rejects [of offline_world photo_jpg]
    analyzeFile_never_rejects [of "offline_world\<lparr>analysisRequest := NoText\<rparr>" photo_jpg]
    analyzeFile_never_rejects [of offline_world clip_mp4]
  by (simp add: offline_world_def photo_jpg_def clip_mp4_def startsWith_def)

text \<open>
  The sentence of the specification fails for a response that violates the schema and is
  JSON all the same, such as the empty object: \<open>analyzeFile\<close> returns it, with no risk level, no
  confidence and no findings, and not the fallback.
\<close>

theorem analyzeFile_schema_counterexample:
  "analyzeFile (offline_world\<lparr>analysisRequest := Parsed (JsonObject empty_analysis)\<rparr>) photo_jpg
     = Resolved (JsonObject empty_analysis) \<and>
   ai_riskLevel empty_analysis \<noteq> Some medium \<and>
   confidence empty_analysis \<noteq> Some (7 / 10) \<and>
   ai_sensitiveData empty_analysis = None \<and>
   analyzeFile (offline_world\<lparr>analysisRequest := Parsed (JsonObject empty_analysis)\<rparr>) photo_jpg
     \<noteq> Resolved (JsonObject
           (simulateAnalysis
              (offline_world\<lparr>analysisRequest := Parsed (JsonObject empty_analysis)\<rparr>)
              photo_jpg))"
  by (simp add: analyzeFile_def analyzeFile_try_def simulateAnalysis_def Let_def validTime_def
      empty_analysis_def offline_world_def photo_jpg_def)

text \<open>
  C9, as the code has it. \<open>generateFakeMetadata\<close> never rejects and never stays pending.
  When the request fails, when the text is not JSON and when the text is the JSON
  \<^verbatim>\<open>null\<close>, it resolves with the static decoy (device \<open>Shielded Forensic Hardware\<close>,
  location \<open>Protected Network\<close>, the flag \<open>generatedFakeData\<close>); when the response has no
  text it resolves with the empty object; any other text that is JSON gives the decoy with
  the four properties as parsed.
\<close>

theorem generateFakeMetadata_never_rejects:
  "(\<exists>d. generateFakeMetadata w = Resolved d) \<and>
   (case decoyRequest w of
      RequestFails e \<Rightarrow> generateFakeMetadata w = Resolved static_decoy
    | NotJSON e \<Rightarrow> generateFakeMetadata w = Resolved static_decoy
    | NoText \<Rightarrow> generateFakeMetadata w = Resolved empty_decoy
    | Parsed JsonNull \<Rightarrow> generateFakeMetadata w = Resolved static_decoy
    | Parsed (JsonObject parsed) \<Rightarrow> generateFakeMetadata w = Resolved
        \<lparr> fake_device = pd_device parsed, fake_location = pd_location parsed,
          fake_creationDate = pd_creationDate parsed,
          fake_technicalData = pd_technicalData parsed,
          fake_generatedFakeData = Some True \<rparr>) \<and>
   fake_device static_decoy = Some ''Shielded Forensic Hardware'' \<and>
   fake_location static_decoy = Some ''Protected Network''"
  by (simp add: generateFakeMetadata_def generateFakeMetadata_try_def static_decoy_def
      split: generateContent.splits parsed.splits)

theorem generateFakeMetadata_never_rejects_witness:
  "generateFakeMetadata offline_world = Resolved static_decoy \<and>
   generateFakeMetadata (offline_world\<lparr>decoyRequest := NotJSON ''Unexpected token''\<rparr>)
     = Resolved static_decoy"
  using generateFakeMetadata_never_rejects [of offline_world]
    generateFakeMetadata_never_rejects
      [of "offline_world\<lparr>decoyRequest := NotJSON ''Unexpected token''\<rparr>"]
  by (simp add: offline_world_def)

text \<open>
  The sentence of the specification fails when the service answers with no text: the
  result is the empty object, without device and location, not the static decoy.
\<close>

theorem generateFakeMetadata_empty_counterexample:
  "generateFakeMetadata (offline_world\<lparr>decoyRequest := NoText\<rparr>) = Resolved empty_decoy \<and>
   fake_device empty_decoy = None \<and> fake_location empty_decoy = None \<and>
   generateFakeMetadata (offline_world\<lparr>decoyRequest := NoText\<rparr>) \<noteq> Resolved static_decoy"
  by (simp add: generateFakeMetadata_def generateFakeMetadata_try_def static_decoy_def
      empty_decoy_def offline_world_def)

section \<open>Properties of the image path\<close>

lemma finishImage_metadata:
  "finishImage w f options wd ht md = Resolved r \<Longrightarrow>
     location (metadata r) = location md \<and> device (metadata r) = device md \<and>
     hasGPS (metadata r) = hasGPS md \<and> safeModeApplied (metadata r) = safeModeApplied md \<and>
     riskLevel (metadata r) = riskLevel md \<and> sensitiveData (metadata r) = sensitiveData md"
  by (auto simp: finishImage_def imageResult_def applyChangeDates_def Let_def
      split: option.splits)

lemma processImage_onload:
  "snd (processImage st w f options) = Resolved r \<Longrightarrow>
     \<exists>wd ht. decodeImage w = Some (wd, ht) \<and> onloadImage w f options wd ht = Resolved r"
  by (auto simp: processImage_def Let_def split: if_splits option.splits)

lemma onloadImage_finish:
  "onloadImage w f options wd ht = Resolved r \<Longrightarrow>
     \<exists>aiReport md0. analyzeFile w f = Resolved aiReport \<and>
       imageMetadata w f aiReport = Inr md0 \<and>
       (if generateFakeData options
        then \<exists>fake. generateFakeMetadata w = Resolved fake \<and>
               finishImage w f options wd ht
                 (overlayFake fake (applyRemoveGPS options (applySafeMode options md0)))
               = Resolved r
        else finishImage w f options wd ht
               (applyRemoveGPS options (applySafeMode options md0))
             = Resolved r)"
  by (auto simp: onloadImage_def Let_def split: promise.splits sum.splits if_splits)

text \<open>
  C1, as the code has it. In the report of an image processed with \<open>removeGPS\<close> (with or
  without \<open>safeMode\<close>, which does not write the location), the location is \<open>Stripped\<close>
  when \<open>generateFakeData\<close> is off; when it is on, the location is the decoy's location
  if the decoy has one that is not empty, and stays \<open>Stripped\<close> otherwise. The same
  order holds for the device, which \<open>safeMode\<close> writes before the decoy does.
\<close>

theorem image_location_precedence:
  assumes res: "snd (processImage st w f options) = Resolved r"
    and gps: "removeGPS options"
  shows "(\<not> generateFakeData options \<longrightarrow> location (metadata r) = Some ''Stripped'') \<and>
         (generateFakeData options \<longrightarrow>
            (\<exists>fake. generateFakeMetadata w = Resolved fake \<and>
               location (metadata r) =
                 (if truthy (fake_location fake) then fake_location fake
                  else Some ''Stripped'') \<and>
               (safeMode options \<longrightarrow>
                  device (metadata r) =
                    (if truthy (fake_device fake) then fake_device fake
                     else Some ''Sanitized Device''))))"
proof -
  obtain wd ht where onl: "onloadImage w f options wd ht = Resolved r"
    using processImage_onload [OF res] by blast
  obtain md0 where fin:
    "if generateFakeData options
     then \<exists>fake. generateFakeMetadata w = Resolved fake \<and>
            finishImage w f options wd ht
              (overlayFake fake (applyRemoveGPS options (applySafeMode options md0)))
            = Resolved r
     else finishImage w f options wd ht
            (applyRemoveGPS options (applySafeMode options md0))
          = Resolved r"
    using onloadImage_finish [OF onl] by blast
  show ?thesis
  proof (cases "generateFakeData options")
    case False
    with fin have "finishImage w f options wd ht
        (applyRemoveGPS options (applySafeMode options md0)) = Resolved r"
      by simp
    from finishImage_metadata [OF this] gps False show ?thesis
      by (simp add: applyRemoveGPS_def)
  next
    case True
    with fin obtain fake where fk: "generateFakeMetadata w = Resolved fake"
      and "finishImage w f options wd ht
        (overlayFake fake (applyRemoveGPS options (applySafeMode options md0)))
        = Resolved r"
      by auto
    from finishImage_metadata [OF this(2)] gps True fk show ?thesis
      by (simp add: overlayFake_def applyRemoveGPS_def applySafeMode_def)
  qed
qed

theorem image_location_precedence_witness:
  "removeGPS safe_gps_options \<and> \<not> generateFakeData safe_gps_options \<and>
   map_option (location \<circ> metadata)
     (resolved (snd (processImage uninitialized offline_world photo_jpg safe_gps_options)))
     = Some (Some ''Stripped'') \<and>
   removeGPS safe_gps_fake_options \<and> generateFakeData safe_gps_fake_options \<and>
   map_option (location \<circ> metadata)
     (resolved (snd (processImage uninitialized offline_world photo_jpg safe_gps_fake_options)))
     = Some (Some ''Protected Network'')"
proof -
  obtain r1 where r1:
    "snd (processImage uninitialized offline_world photo_jpg safe_gps_options) = Resolved r1"
    by (simp add: eval_defs)
  obtain r2 where r2:
    "snd (processImage uninitialized offline_world photo_jpg safe_gps_fake_options) = Resolved r2"
    by (simp add: eval_defs)
  have g1: "removeGPS safe_gps_options" and n1: "\<not> generateFakeData safe_gps_options"
    by (simp_all add: safe_gps_options_def)
  have g2: "removeGPS safe_gps_fake_options" and f2: "generateFakeData safe_gps_fake_options"
    by (simp_all add: safe_gps_fake_options_def)
  have dec: "generateFakeMetadata offline_world = Resolved static_decoy"
    by (simp add: generateFakeMetadata_def generateFakeMetadata_try_def offline_world_def)
  from image_location_precedence [OF r1 g1] n1
  have a: "location (metadata r1) = Some ''Stripped''"
    by simp
  from image_location_precedence [OF r2 g2] f2 dec
  have b: "location (metadata r2) = Some ''Protected Network''"
    by (simp add: static_decoy_def truthy_def)
  show ?thesis
    using a b g1 n1 g2 f2 by (simp add: r1 r2 resolved_def)
qed

text \<open>
  The sentence of the specification fails when the decoy has no location: the service answers with no
  text, the decoy is the empty object, and the location of the report stays \<open>Stripped\<close>.
\<close>

theorem image_location_counterexample:
  "map_option fake_location
     (resolved (generateFakeMetadata (offline_world\<lparr>decoyRequest := NoText\<rparr>))) = Some None \<and>
   map_option (location \<circ> metadata)
     (resolved (snd (processImage uninitialized (offline_world\<lparr>decoyRequest := NoText\<rparr>)
        photo_jpg safe_gps_fake_options)))
     = Some (Some ''Stripped'')"
  by (simp add: eval_defs empty_decoy_def overlayFake_def applyRemoveGPS_def applySafeMode_def
      applyChangeDates_def imageReport_def truthy_def)

lemma canvas_initializeCanvas: "canvas (initializeCanvas w st) \<noteq> None"
  by (simp add: initializeCanvas_def)

lemma technicalData_imageReport:
  "technicalData (applyRemoveGPS options (applySafeMode options (imageReport w f a))) = None"
  by (simp add: applyRemoveGPS_def applySafeMode_def imageReport_def)

lemma analyzeFile_object:
  "analysisRequest w \<noteq> Parsed JsonNull \<Longrightarrow> \<exists>a. analyzeFile w f = Resolved (JsonObject a)"
proof (cases "analysisRequest w")
  case (Parsed x)
  assume "analysisRequest w \<noteq> Parsed JsonNull"
  with Parsed obtain a where "x = JsonObject a" by (cases x) auto
  with Parsed show ?thesis
    by (simp add: analyzeFile_def analyzeFile_try_def)
qed (simp_all add: analyzeFile_def analyzeFile_try_def)

lemma finishImage_technicalData:
  assumes "toBlob w (file_type f) (if preserveQuality options then 95 / 100 else 8 / 10) = Some blob"
  shows "\<exists>r. finishImage w f options wd ht md = Resolved r \<and> status r = completed \<and>
           processedSize (metadata r) = Some (length blob) \<and>
           map_option file_content (processedFile r) = Some blob \<and>
           technicalData (metadata r) = Some
             ((case technicalData md of None \<Rightarrow> Map.empty | Some td \<Rightarrow> td)
               (''engine'' \<mapsto> JStr ''ShieldEngine v4 (Canvas Redraw)'',
                ''binaryStripped'' \<mapsto> JBool True,
                ''fingerprintObfuscated'' \<mapsto> JBool True,
                ''resolution'' \<mapsto> JStr (decimal wd @ ''x'' @ decimal ht)))"
  using assms
  by (simp add: finishImage_def imageResult_def applyChangeDates_def Let_def)

text \<open>
  C5. An image (a file whose type begins with \<open>image/\<close>) that the browser reads and
  decodes and that is re-encoded is processed to a \<open>completed\<close> result whose output file
  holds the encoder's bytes. The image is re-encoded when there is a 2D context, the
  handler gets as far as the encoder, which it does when it can build the report (the
  \<^verbatim>\<open>lastModified\<close> of the file is a valid time and the AI report is not \<^verbatim>\<open>null\<close>), and
  the encoder returns bytes at the quality of the options. The report
  records their number as \<open>processedSize\<close>, and its \<open>technicalData\<close> has the engine name,
  \<open>binaryStripped\<close> and \<open>fingerprintObfuscated\<close> true and the resolution as
  \<open>width\<close>x\<open>height\<close>. These four entries are written over the decoy's technical data:
  whatever the decoy holds under the same keys is replaced, and every other key has the
  decoy's value (none without \<open>generateFakeData\<close>).
\<close>

theorem image_completed:
  assumes img: "startsWith (file_type f) ''image/''"
    and rd: "readAsDataURL w"
    and dec: "decodeImage w = Some (width, height)"
    and cx: "ctx (initializeCanvas w st) \<noteq> None"
    and lm: "validTime (file_lastModified f)"
    and nn: "analysisRequest w \<noteq> Parsed JsonNull"
    and enc: "toBlob w (file_type f) (if preserveQuality options then 95 / 100 else 8 / 10) = Some blob"
  shows "\<exists>st' r td. process st w f options = (st', Resolved r) \<and> status r = completed \<and>
           processedSize (metadata r) = Some (length blob) \<and>
           map_option file_content (processedFile r) = Some blob \<and>
           technicalData (metadata r) = Some td \<and>
           td ''engine'' = Some (JStr ''ShieldEngine v4 (Canvas Redraw)'') \<and>
           td ''binaryStripped'' = Some (JBool True) \<and>
           td ''fingerprintObfuscated'' = Some (JBool True) \<and>
           td ''resolution'' = Some (JStr (decimal width @ ''x'' @ decimal height)) \<and>
           (\<forall>key. key \<notin> {''engine'', ''binaryStripped'', ''fingerprintObfuscated'', ''resolution''} \<longrightarrow>
              td key =
                (if generateFakeData options
                 then (case resolved (generateFakeMetadata w) of
                         Some fake \<Rightarrow>
                           (case fake_technicalData fake of Some d \<Rightarrow> d key | None \<Rightarrow> None)
                       | None \<Rightarrow> None)
                 else None))"
proof -
  obtain a where ai: "analyzeFile w f = Resolved (JsonObject a)"
    using analyzeFile_object [OF nn] by blast
  have im: "imageMetadata w f (JsonObject a) = Inr (imageReport w f a)"
    using lm by (simp add: imageMetadata_def)
  obtain fake where fk: "generateFakeMetadata w = Resolved fake"
    using generateFakeMetadata_resolves by blast
  let ?md = "applyRemoveGPS options (applySafeMode options (imageReport w f a))"
  let ?md' = "if generateFakeData options then overlayFake fake ?md else ?md"
  have onl: "onloadImage w f options width height = finishImage w f options width height ?md'"
    using ai im fk by (simp add: onloadImage_def Let_def)
  have pr: "process st w f options =
              ((initializeCanvas w st)\<lparr>canvas := Some (width, height)\<rparr>,
               finishImage w f options width height ?md')"
    using img rd dec cx canvas_initializeCanvas [of w st] onl
    by (auto simp: process_def processImage_def Let_def)
  obtain r where fin: "finishImage w f options width height ?md' = Resolved r"
    and st: "status r = completed"
    and sz: "processedSize (metadata r) = Some (length blob)"
    and ct: "map_option file_content (processedFile r) = Some blob"
    and td: "technicalData (metadata r) = Some
             ((case technicalData ?md' of None \<Rightarrow> Map.empty | Some td \<Rightarrow> td)
               (''engine'' \<mapsto> JStr ''ShieldEngine v4 (Canvas Redraw)'',
                ''binaryStripped'' \<mapsto> JBool True,
                ''fingerprintObfuscated'' \<mapsto> JBool True,
                ''resolution'' \<mapsto> JStr (decimal width @ ''x'' @ decimal height)))"
    using finishImage_technicalData [OF enc, of width height ?md'] by blast
  have src: "technicalData ?md' = (if generateFakeData options then fake_technicalData fake else None)"
    using technicalData_imageReport [of options w f a]
    by (simp add: overlayFake_def)
  show ?thesis
    using pr fin st sz ct td src fk
    by (auto simp: resolved_def split: option.splits)
qed

theorem image_completed_witness:
  "startsWith (file_type photo_jpg) ''image/'' \<and>
   readAsDataURL (offline_world\<lparr>decoyRequest := Parsed (JsonObject lens_decoy)\<rparr>) \<and>
   decodeImage (offline_world\<lparr>decoyRequest := Parsed (JsonObject lens_decoy)\<rparr>) = Some (640, 480) \<and>
   ctx (initializeCanvas (offline_world\<lparr>decoyRequest := Parsed (JsonObject lens_decoy)\<rparr>) uninitialized)
     \<noteq> None \<and>
   validTime (file_lastModified photo_jpg) \<and>
   analysisRequest (offline_world\<lparr>decoyRequest := Parsed (JsonObject lens_decoy)\<rparr>)
     \<noteq> Parsed JsonNull \<and>
   toBlob (offline_world\<lparr>decoyRequest := Parsed (JsonObject lens_decoy)\<rparr>) (file_type photo_jpg)
     (if preserveQuality safe_gps_fake_options then 95 / 100 else 8 / 10) = Some [1, 2, 3, 4, 5] \<and>
   (\<exists>st' r td.
      process uninitialized (offline_world\<lparr>decoyRequest := Parsed (JsonObject lens_decoy)\<rparr>) photo_jpg
        safe_gps_fake_options = (st', Resolved r) \<and>
      status r = completed \<and> processedSize (metadata r) = Some 5 \<and>
      technicalData (metadata r) = Some td \<and>
      td ''engine'' = Some (JStr ''ShieldEngine v4 (Canvas Redraw)'') \<and>
      td ''binaryStripped'' = Some (JBool True) \<and>
      td ''resolution'' = Some (JStr ''640x480'') \<and>
      td ''lens'' = Some (JStr ''RF 50mm''))"
proof -
  let ?w = "offline_world\<lparr>decoyRequest := Parsed (JsonObject lens_decoy)\<rparr>"
  have img: "startsWith (file_type photo_jpg) ''image/''"
    by (simp add: startsWith_def photo_jpg_def)
  have rd: "readAsDataURL ?w" by (simp add: offline_world_def)
  have dec: "decodeImage ?w = Some (640, 480)" by (simp add: offline_world_def)
  have cx: "ctx (initializeCanvas ?w uninitialized) \<noteq> None"
    by (simp add: initializeCanvas_def offline_world_def uninitialized_def)
  have lm: "validTime (file_lastModified photo_jpg)"
    by (simp add: validTime_def photo_jpg_def)
  have nn: "analysisRequest ?w \<noteq> Parsed JsonNull"
    by (simp add: offline_world_def)
  have enc: "toBlob ?w (file_type photo_jpg)
      (if preserveQuality safe_gps_fake_options then 95 / 100 else 8 / 10) = Some [1, 2, 3, 4, 5]"
    by (simp add: offline_world_def sample_encoder_def safe_gps_fake_options_def)
  have fk: "resolved (generateFakeMetadata ?w) = Some
      \<lparr> fake_device = pd_device lens_decoy, fake_location = pd_location lens_decoy,
        fake_creationDate = pd_creationDate lens_decoy,
        fake_technicalData = pd_technicalData lens_decoy,
        fake_generatedFakeData = Some True \<rparr>"
    by (simp add: generateFakeMetadata_def generateFakeMetadata_try_def resolved_def
        offline_world_def)
  have gen: "generateFakeData safe_gps_fake_options"
    by (simp add: safe_gps_fake_options_def)
  have d640: "decimal 640 = ''640''" and d480: "decimal 480 = ''480''"
    by (simp_all add: decimal.simps)
  have "\<exists>st' r td. process uninitialized ?w photo_jpg safe_gps_fake_options = (st', Resolved r) \<and>
           status r = completed \<and>
           processedSize (metadata r) = Some (length [1::byte, 2, 3, 4, 5]) \<and>
           map_option file_content (processedFile r) = Some [1, 2, 3, 4, 5] \<and>
           technicalData (metadata r) = Some td \<and>
           td ''engine'' = Some (JStr ''ShieldEngine v4 (Canvas Redraw)'') \<and>
           td ''binaryStripped'' = Some (JBool True) \<and>
           td ''fingerprintObfuscated'' = Some (JBool True) \<and>
           td ''resolution'' = Some (JStr (decimal 640 @ ''x'' @ decimal 480)) \<and>
           (\<forall>key. key \<notin> {''engine'', ''binaryStripped'', ''fingerprintObfuscated'', ''resolution''} \<longrightarrow>
              td key =
                (if generateFakeData safe_gps_fake_options
                 then (case resolved (generateFakeMetadata ?w) of
                         Some fake \<Rightarrow>
                           (case fake_technicalData fake of Some d \<Rightarrow> d key | None \<Rightarrow> None)
                       | None \<Rightarrow> None)
                 else None))"
    (is "\<exists>st' r td. ?P st' r td")
    by (rule image_completed [OF img rd dec cx lm nn enc])
  then obtain st' r td where c: "?P st' r td"
    by (elim exE)
  have notin: "''lens'' \<notin> {''engine'', ''binaryStripped'', ''fingerprintObfuscated'', ''resolution''}"
    by simp
  from c have "td ''lens'' =
      (if generateFakeData safe_gps_fake_options
       then (case resolved (generateFakeMetadata ?w) of
               Some fake \<Rightarrow>
                 (case fake_technicalData fake of Some d \<Rightarrow> d ''lens'' | None \<Rightarrow> None)
             | None \<Rightarrow> None)
       else None)"
    using notin by (elim conjE) (erule allE [of _ "''lens''"], erule mp)
  then have "td ''lens'' =
      (case pd_technicalData lens_decoy of Some d \<Rightarrow> d ''lens'' | None \<Rightarrow> None)"
    by (simp add: gen fk)
  then have lens: "td ''lens'' = Some (JStr ''RF 50mm'')"
    by (simp add: lens_decoy_def)
  from c have c': "process uninitialized ?w photo_jpg safe_gps_fake_options = (st', Resolved r)"
    "status r = completed" "processedSize (metadata r) = Some 5"
    "technicalData (metadata r) = Some td"
    "td ''engine'' = Some (JStr ''ShieldEngine v4 (Canvas Redraw)'')"
    "td ''binaryStripped'' = Some (JBool True)"
    "td ''resolution'' = Some (JStr ''640x480'')"
    by (simp_all add: d640 d480)
  have "\<exists>st' r td.
      process uninitialized ?w photo_jpg safe_gps_fake_options = (st', Resolved r) \<and>
      status r = completed \<and> processedSize (metadata r) = Some 5 \<and>
      technicalData (metadata r) = Some td \<and>
      td ''engine'' = Some (JStr ''ShieldEngine v4 (Canvas Redraw)'') \<and>
      td ''binaryStripped'' = Some (JBool True) \<and>
      td ''resolution'' = Some (JStr ''640x480'') \<and>
      td ''lens'' = Some (JStr ''RF 50mm'')"
    using c' lens by (intro exI conjI)
  with img rd dec cx lm nn enc show ?thesis
    by (intro conjI)
qed

subsection \<open>Rounding to a double, and the dates of \<^verbatim>\<open>changeDates\<close>\<close>

lemma bitLength_le: "n < 2 ^ k \<Longrightarrow> bitLength n \<le> k"
proof (induction n arbitrary: k rule: bitLength.induct)
  case (1 n)
  show ?case
  proof (cases "n = 0")
    case True
    then show ?thesis by (simp add: bitLength.simps)
  next
    case False
    with "1.prems" obtain j where k: "k = Suc j"
      by (cases k) auto
    with "1.prems" have "n div 2 < 2 ^ j" by auto
    from "1.IH" [OF False this] False k show ?thesis
      by (simp add: bitLength.simps [of n])
  qed
qed

lemma exponent_le:
  assumes "0 < x" and "x < 2 ^ 53"
  shows "exponent x \<le> 52"
proof (cases "1 \<le> x")
  case True
  have "\<lfloor>x\<rfloor> < 2 ^ 53" using assms(2) by (simp add: floor_less_iff)
  moreover have "0 \<le> \<lfloor>x\<rfloor>" using True by simp
  ultimately have "nat \<lfloor>x\<rfloor> < 2 ^ 53"
    by (simp add: nat_less_iff)
  from bitLength_le [OF this] True show ?thesis
    by (simp add: exponent_def)
next
  case False
  then show ?thesis by (simp add: exponent_def)
qed

lemma roundTiesToEven_bounds:
  "\<lfloor>m\<rfloor> \<le> roundTiesToEven m \<and> roundTiesToEven m \<le> \<lceil>m\<rceil>"
proof -
  have "m = of_int \<lfloor>m\<rfloor> \<or> \<lceil>m\<rceil> = \<lfloor>m\<rfloor> + 1"
    by (metis ceiling_altdef)
  moreover have "\<lfloor>m\<rfloor> \<le> \<lceil>m\<rceil>" by (rule floor_le_ceiling)
  ultimately show ?thesis
    by (auto simp: roundTiesToEven_def Let_def)
qed

text \<open>
  Below \<open>2 ^ 53\<close> every integer is a double, and rounding is monotone: a number between
  two integers is rounded to a double between them.
\<close>

lemma double_between_nonneg:
  assumes x0: "0 \<le> x" and x1: "x < 2 ^ 53"
    and a: "of_int a \<le> x" and b: "x \<le> of_int b"
  shows "of_int a \<le> double x \<and> double x \<le> of_int b"
proof (cases "x = 0")
  case True
  with a b show ?thesis by (simp add: double_def)
next
  case False
  with x0 have pos: "0 < x" by simp
  define k where "k = nat (52 - exponent x)"
  have e: "exponent x \<le> 52" using exponent_le [OF pos x1] .
  have d: "double x = of_int (roundTiesToEven (x * 2 ^ k)) / 2 ^ k"
    using pos e by (simp add: double_def k_def Let_def)
  have "of_int (a * 2 ^ k) \<le> x * 2 ^ k" using a by simp
  then have "a * 2 ^ k \<le> \<lfloor>x * 2 ^ k\<rfloor>" by (simp only: le_floor_iff)
  then have lo: "a * 2 ^ k \<le> roundTiesToEven (x * 2 ^ k)"
    using roundTiesToEven_bounds [of "x * 2 ^ k"] by linarith
  have "x * 2 ^ k \<le> of_int (b * 2 ^ k)" using b by simp
  then have "\<lceil>x * 2 ^ k\<rceil> \<le> b * 2 ^ k" by (simp only: ceiling_le_iff)
  then have hi: "roundTiesToEven (x * 2 ^ k) \<le> b * 2 ^ k"
    using roundTiesToEven_bounds [of "x * 2 ^ k"] by linarith
  have "(of_int (a * 2 ^ k) :: rat) \<le> of_int (roundTiesToEven (x * 2 ^ k))"
    using lo by (simp only: of_int_le_iff)
  then have l: "of_int a \<le> double x"
    unfolding d by (simp add: pos_le_divide_eq)
  have "(of_int (roundTiesToEven (x * 2 ^ k)) :: rat) \<le> of_int (b * 2 ^ k)"
    using hi by (simp only: of_int_le_iff)
  then have h: "double x \<le> of_int b"
    unfolding d by (simp add: pos_divide_le_eq)
  from l h show ?thesis ..
qed

lemma double_minus: "double (- x) = - double x"
  by (simp add: double_def Let_def)

lemma double_between:
  assumes x1: "\<bar>x\<bar> < 2 ^ 53"
    and a: "of_int a \<le> x" and b: "x \<le> of_int b"
  shows "of_int a \<le> double x \<and> double x \<le> of_int b"
proof (cases "0 \<le> x")
  case True
  with x1 have "x < 2 ^ 53" by simp
  from double_between_nonneg [OF True this a b] show ?thesis .
next
  case False
  then have n0: "0 \<le> - x" by simp
  from False x1 have n1: "- x < 2 ^ 53" by simp
  have na: "of_int (- b) \<le> - x" using b by simp
  have nb: "- x \<le> of_int (- a)" using a by simp
  from double_between_nonneg [OF n0 n1 na nb]
  show ?thesis by (simp add: double_minus)
qed

lemma double_of_int:
  assumes "\<bar>n\<bar> < 2 ^ 53"
  shows "double (of_int n) = of_int n"
proof -
  have "\<bar>of_int n :: rat\<bar> < 2 ^ 53"
    using assms by (metis of_int_abs of_int_less_numeral_power_cancel_iff)
  from double_between [OF this, of n n] show ?thesis by simp
qed

lemma timeClip_between:
  assumes "of_int a \<le> x" and "x \<le> of_int b"
  shows "a \<le> timeClip x \<and> timeClip x \<le> b"
proof -
  have f1: "\<lfloor>x\<rfloor> \<le> b" using assms(2) by (simp add: floor_le_iff)
  have f2: "a \<le> \<lfloor>x\<rfloor>" using assms(1) by (simp only: le_floor_iff)
  have c1: "\<lceil>x\<rceil> \<le> b" using assms(2) by (simp add: ceiling_le_iff)
  have c2: "\<lfloor>x\<rfloor> \<le> \<lceil>x\<rceil>" by (rule floor_le_ceiling)
  have c3: "a \<le> \<lceil>x\<rceil>" using f2 c2 by (rule order_trans)
  have "timeClip x = \<lfloor>x\<rfloor> \<or> timeClip x = \<lceil>x\<rceil>"
    by (simp add: timeClip_def)
  then show ?thesis
  proof
    assume e: "timeClip x = \<lfloor>x\<rfloor>"
    show ?thesis unfolding e using f1 f2 by (intro conjI)
  next
    assume e: "timeClip x = \<lceil>x\<rceil>"
    show ?thesis unfolding e using c1 c3 by (intro conjI)
  qed
qed

text \<open>
  The date of the \<^verbatim>\<open>changeDates\<close> block lies in the 365 days before the reading of the
  clock.
\<close>

lemma clockReading_validTime: "clockReading n \<Longrightarrow> validTime n"
  by (simp add: clockReading_def validTime_def)

lemma fakeDate_range:
  assumes u0: "0 \<le> u" and u1: "u < 1" and clk: "validTime n"
  shows "n - 31536000000 \<le> timeClip (double (of_int n - double (u * 31536000000))) \<and>
         timeClip (double (of_int n - double (u * 31536000000))) \<le> n"
proof -
  let ?p = "double (u * 31536000000)"
  have p0: "0 \<le> u * 31536000000" using u0 by simp
  have p1: "u * 31536000000 < 2 ^ 53" using u1 by simp
  have pa: "of_int 0 \<le> u * 31536000000" using u0 by simp
  have pb: "u * 31536000000 \<le> of_int 31536000000" using u1 by simp
  from double_between_nonneg [OF p0 p1 pa pb]
  have p: "0 \<le> ?p" "?p \<le> 31536000000" by simp_all
  have n: "- 8640000000000000 \<le> n" "n \<le> 8640000000000000"
    using clk by (simp_all add: validTime_def abs_le_iff)
  have "(of_int (- 8640000000000000) :: rat) \<le> of_int n"
    and "(of_int n :: rat) \<le> of_int 8640000000000000"
    using n by (simp_all only: of_int_le_iff)
  then have nr: "- 8640000000000000 \<le> (of_int n :: rat)"
    "(of_int n :: rat) \<le> 8640000000000000"
    by simp_all
  have x1: "\<bar>of_int n - ?p\<bar> < 2 ^ 53"
    using nr p by (simp add: abs_less_iff)
  have xa: "of_int (n - 31536000000) \<le> of_int n - ?p" using p by simp
  have xb: "of_int n - ?p \<le> of_int n" using p by simp
  from double_between [OF x1 xa xb]
  have "of_int (n - 31536000000) \<le> double (of_int n - ?p)"
    and "double (of_int n - ?p) \<le> of_int n" by simp_all
  from timeClip_between [OF this] show ?thesis .
qed

text \<open>
  Rounding matters: with the draw \<open>2 ^ -52\<close> the exact difference lies just below the
  reading of the clock, and the double nearest to it is the reading itself.
\<close>

lemma double_rounds_to_clock:
  "double (1762000000002 - double (1 / 2 ^ 52 * 31536000000)) = 1762000000002"
proof -
  have p: "double (1 / 2 ^ 52 * 31536000000) = 1 / 2 ^ 52 * 31536000000"
  proof -
    let ?y = "1 / 2 ^ 52 * 31536000000 :: rat"
    have c: "\<lceil>1 / ?y\<rceil> = 142809" by (simp add: ceiling_eq_iff)
    have e: "exponent \<bar>?y\<bar> = - 18"
      unfolding exponent_def using c by (simp add: bitLength.simps)
    show ?thesis
      unfolding double_def Let_def e roundTiesToEven_def
      by (simp add: floor_eq_iff)
  qed
  let ?x = "1762000000002 - 1 / 2 ^ 52 * 31536000000 :: rat"
  have f: "\<lfloor>?x\<rfloor> = 1762000000001" by (simp add: floor_eq_iff)
  have e: "exponent \<bar>?x\<bar> = 40"
    unfolding exponent_def using f by (simp add: bitLength.simps)
  have m: "\<lfloor>?x * 2 ^ 12\<rfloor> = 7217152000008191" by (simp add: floor_eq_iff)
  have r: "roundTiesToEven (?x * 2 ^ 12) = 7217152000008192"
    unfolding roundTiesToEven_def Let_def m by simp
  have d: "double ?x = 1762000000002"
    unfolding double_def Let_def using e r by simp
  show ?thesis unfolding p by (rule d)
qed

lemma finishImage_dates:
  "finishImage w f options wd ht md = Resolved r \<Longrightarrow>
     creationDate (metadata r) = creationDate (applyChangeDates w options md) \<and>
     modificationDate (metadata r) = modificationDate (applyChangeDates w options md) \<and>
     map_option file_lastModified (processedFile r) =
       Some (if changeDates options then now_output w else file_lastModified f)"
  by (auto simp: finishImage_def imageResult_def Let_def split: option.splits)

lemma processImage_finish:
  "snd (processImage st w f options) = Resolved r \<Longrightarrow>
     \<exists>wd ht md. finishImage w f options wd ht md = Resolved r"
  using processImage_onload onloadImage_finish
  by (metis (full_types))

text \<open>
  C7. In the report of an image processed with \<open>changeDates\<close>, the creation date is the
  ISO string of the time that the source computes in double arithmetic,
  \<open>now - random * 31536000000\<close> (365 days of milliseconds) with the fraction dropped, where
  \<open>random\<close> is the draw of \<^verbatim>\<open>Math.random()\<close> from [0, 1) and \<open>now\<close> the reading of the
  clock: a time in the 365 days before that reading, as uniform as the draw. The modification date is the ISO string of
  the clock. Both are written after every other overlay, so a creation date of the decoy
  does not survive. The output file's \<open>lastModified\<close> is the clock with \<open>changeDates\<close> and
  the input's \<open>lastModified\<close> without.
\<close>

theorem image_changeDates:
  assumes res: "snd (processImage st w f options) = Resolved r"
    and r0: "0 \<le> random_fakeDate w" and r1: "random_fakeDate w < 1"
    and clk: "clockReading (now_fakeDate w)"
  shows "(changeDates options \<longrightarrow>
            creationDate (metadata r) = Some (ISOString
              (timeClip (double (of_int (now_fakeDate w)
                 - double (random_fakeDate w * 31536000000))))) \<and>
            now_fakeDate w - 365 * (24 * 60 * 60 * 1000)
              \<le> timeClip (double (of_int (now_fakeDate w)
                   - double (random_fakeDate w * 31536000000))) \<and>
            timeClip (double (of_int (now_fakeDate w)
                - double (random_fakeDate w * 31536000000)))
              \<le> now_fakeDate w \<and>
            modificationDate (metadata r) = Some (ISOString (now_changeDates w)) \<and>
            map_option file_lastModified (processedFile r) = Some (now_output w)) \<and>
         (\<not> changeDates options \<longrightarrow>
            map_option file_lastModified (processedFile r) = Some (file_lastModified f))"
proof -
  obtain wd ht md where fin: "finishImage w f options wd ht md = Resolved r"
    using processImage_finish [OF res] by blast
  note d = finishImage_dates [OF fin]
  have rng: "now_fakeDate w - 365 * (24 * 60 * 60 * 1000)
              \<le> timeClip (double (of_int (now_fakeDate w)
                   - double (random_fakeDate w * 31536000000))) \<and>
            timeClip (double (of_int (now_fakeDate w)
                - double (random_fakeDate w * 31536000000)))
              \<le> now_fakeDate w"
    using fakeDate_range [OF r0 r1 clockReading_validTime [OF clk]] by simp
  show ?thesis
    using d rng by (cases "changeDates options") (auto simp: applyChangeDates_def Let_def)
qed

theorem image_changeDates_witness:
  "0 \<le> random_fakeDate (offline_world\<lparr>decoyRequest := Parsed (JsonObject lens_decoy)\<rparr>) \<and>
   random_fakeDate (offline_world\<lparr>decoyRequest := Parsed (JsonObject lens_decoy)\<rparr>) < 1 \<and>
   clockReading (now_fakeDate (offline_world\<lparr>decoyRequest := Parsed (JsonObject lens_decoy)\<rparr>)) \<and>
   changeDates all_options \<and>
   map_option (creationDate \<circ> metadata)
     (resolved (snd (processImage uninitialized
        (offline_world\<lparr>decoyRequest := Parsed (JsonObject lens_decoy)\<rparr>) photo_jpg all_options)))
     = Some (Some (ISOString 1746232000002)) \<and>
   map_option (modificationDate \<circ> metadata)
     (resolved (snd (processImage uninitialized
        (offline_world\<lparr>decoyRequest := Parsed (JsonObject lens_decoy)\<rparr>) photo_jpg all_options)))
     = Some (Some (ISOString 1762000000003)) \<and>
   Option.bind
     (resolved (snd (processImage uninitialized
        (offline_world\<lparr>decoyRequest := Parsed (JsonObject lens_decoy)\<rparr>) photo_jpg all_options)))
     (map_option file_lastModified \<circ> processedFile) = Some 1762000000004 \<and>
   \<not> changeDates safe_gps_options \<and>
   Option.bind
     (resolved (snd (processImage uninitialized
        (offline_world\<lparr>decoyRequest := Parsed (JsonObject lens_decoy)\<rparr>) photo_jpg
        safe_gps_options)))
     (map_option file_lastModified \<circ> processedFile) = Some (file_lastModified photo_jpg) \<and>
   map_option (creationDate \<circ> metadata)
     (resolved (snd (processImage uninitialized tiny_draw_world photo_jpg all_options)))
     = Some (Some (ISOString (now_fakeDate tiny_draw_world)))"
proof -
  let ?w = "offline_world\<lparr>decoyRequest := Parsed (JsonObject lens_decoy)\<rparr>"
  have ai: "analyzeFile w' photo_jpg = Resolved (JsonObject (simulateAnalysis w' photo_jpg))"
    if "analysisRequest w' = RequestFails ''Failed to fetch''" for w'
    using that by (simp add: analyzeFile_def analyzeFile_try_def)
  have run: "\<exists>r. snd (processImage uninitialized w' photo_jpg options) = Resolved r"
    if "analysisRequest w' = RequestFails ''Failed to fetch''" "getContext2d w'"
      "readAsDataURL w'" "decodeImage w' = Some (640, 480)" "toBlob w' = sample_encoder"
    for w' options
    using that ai [OF that(1)] generateFakeMetadata_resolves [of w']
    by (auto simp: processImage_def onloadImage_def finishImage_def imageMetadata_def
        initializeCanvas_def uninitialized_def validTime_def photo_jpg_def sample_encoder_def
        Let_def)
  obtain r1 where r1: "snd (processImage uninitialized ?w photo_jpg all_options) = Resolved r1"
    using run [of ?w all_options] by (auto simp: offline_world_def)
  obtain r2 where r2: "snd (processImage uninitialized ?w photo_jpg safe_gps_options) = Resolved r2"
    using run [of ?w safe_gps_options] by (auto simp: offline_world_def)
  obtain r3 where r3:
    "snd (processImage uninitialized tiny_draw_world photo_jpg all_options) = Resolved r3"
    using run [of tiny_draw_world all_options]
    by (auto simp: tiny_draw_world_def offline_world_def)
  have u0: "0 \<le> random_fakeDate ?w" and u1: "random_fakeDate ?w < 1"
    and clk: "clockReading (now_fakeDate ?w)"
    by (simp_all add: offline_world_def clockReading_def)
  have v0: "0 \<le> random_fakeDate tiny_draw_world" and v1: "random_fakeDate tiny_draw_world < 1"
    and vclk: "clockReading (now_fakeDate tiny_draw_world)"
    by (simp_all add: tiny_draw_world_def offline_world_def clockReading_def)
  have c1: "changeDates all_options" and c2: "\<not> changeDates safe_gps_options"
    by (simp_all add: all_options_def safe_gps_options_def)
  have "double (of_int 15768000000) = of_int 15768000000"
    by (rule double_of_int) simp
  moreover have "double (of_int 1746232000002) = of_int 1746232000002"
    by (rule double_of_int) simp
  ultimately have t: "timeClip (double (of_int (now_fakeDate ?w)
              - double (random_fakeDate ?w * 31536000000))) = 1746232000002"
    by (simp add: timeClip_def offline_world_def)
  have t3: "timeClip (double (of_int (now_fakeDate tiny_draw_world)
              - double (random_fakeDate tiny_draw_world * 31536000000)))
            = now_fakeDate tiny_draw_world"
    using double_rounds_to_clock
    by (simp add: timeClip_def tiny_draw_world_def offline_world_def)
  have n: "now_changeDates ?w = 1762000000003" "now_output ?w = 1762000000004"
    by (simp_all add: offline_world_def)
  from image_changeDates [OF r1 u0 u1 clk] c1
  have a: "creationDate (metadata r1) = Some (ISOString 1746232000002)"
    "modificationDate (metadata r1) = Some (ISOString 1762000000003)"
    "map_option file_lastModified (processedFile r1) = Some 1762000000004"
    by (simp_all only: t n simp_thms)
  from image_changeDates [OF r2 u0 u1 clk] c2
  have b: "map_option file_lastModified (processedFile r2) = Some (file_lastModified photo_jpg)"
    by simp
  from image_changeDates [OF r3 v0 v1 vclk] c1
  have c: "creationDate (metadata r3) = Some (ISOString (now_fakeDate tiny_draw_world))"
    by (simp only: t3 simp_thms)
  show ?thesis
    using a b c c1 c2 u0 u1 clk by (simp add: r1 r2 r3 resolved_def)
qed

lemma finishImage_content:
  "finishImage w f options wd ht md = Resolved r \<Longrightarrow>
     toBlob w (file_type f) (if preserveQuality options then 95 / 100 else 8 / 10)
       = map_option file_content (processedFile r)"
  by (auto simp: finishImage_def imageResult_def Let_def split: option.splits)

lemma imageResult_toBlob_update:
  "imageResult (w\<lparr>toBlob := enc\<rparr>) f options wd ht md blob = imageResult w f options wd ht md blob"
  by (simp add: imageResult_def)

lemma applyChangeDates_toBlob_update:
  "applyChangeDates (w\<lparr>toBlob := enc\<rparr>) options md = applyChangeDates w options md"
  by (simp add: applyChangeDates_def)

lemma imageMetadata_toBlob_update:
  "imageMetadata (w\<lparr>toBlob := enc\<rparr>) f aiReport = imageMetadata w f aiReport"
  by (simp add: imageMetadata_def imageReport_def split: parsed.splits)

lemma initializeCanvas_toBlob_update:
  "initializeCanvas (w\<lparr>toBlob := enc\<rparr>) st = initializeCanvas w st"
  by (simp add: initializeCanvas_def)

lemma simulateAnalysis_toBlob_update:
  "simulateAnalysis (w\<lparr>toBlob := enc\<rparr>) f = simulateAnalysis w f"
  by (simp add: simulateAnalysis_def)

lemma analyzeFile_toBlob_update:
  "analyzeFile (w\<lparr>toBlob := enc\<rparr>) f = analyzeFile w f"
  unfolding analyzeFile_def analyzeFile_try_def simulateAnalysis_toBlob_update
  by simp

lemma generateFakeMetadata_toBlob_update:
  "generateFakeMetadata (w\<lparr>toBlob := enc\<rparr>) = generateFakeMetadata w"
  by (simp add: generateFakeMetadata_def generateFakeMetadata_try_def
      split: generateContent.splits parsed.splits)

lemma finishImage_toBlob_update:
  assumes "enc (file_type f) (if preserveQuality options then 95 / 100 else 8 / 10)
             = toBlob w (file_type f) (if preserveQuality options then 95 / 100 else 8 / 10)"
  shows "finishImage (w\<lparr>toBlob := enc\<rparr>) f options wd ht md = finishImage w f options wd ht md"
proof -
  have "toBlob (w\<lparr>toBlob := enc\<rparr>) (file_type f)
          (if preserveQuality options then 95 / 100 else 8 / 10)
        = toBlob w (file_type f) (if preserveQuality options then 95 / 100 else 8 / 10)"
    using assms by simp
  then show ?thesis
    unfolding finishImage_def Let_def imageResult_toBlob_update applyChangeDates_toBlob_update
    by (simp only:)
qed

lemma onloadImage_toBlob_update:
  assumes "enc (file_type f) (if preserveQuality options then 95 / 100 else 8 / 10)
             = toBlob w (file_type f) (if preserveQuality options then 95 / 100 else 8 / 10)"
  shows "onloadImage (w\<lparr>toBlob := enc\<rparr>) f options wd ht = onloadImage w f options wd ht"
  unfolding onloadImage_def Let_def analyzeFile_toBlob_update generateFakeMetadata_toBlob_update
    imageMetadata_toBlob_update finishImage_toBlob_update [where enc = enc and f = f and options = options and w = w, OF assms]
  by (rule refl)

text \<open>
  C8. The encoder is called with the type of the file and the quality 0.95 when
  \<open>preserveQuality\<close> is set and 0.8 when it is not: the bytes of the output file are what
  the encoder returns for that quality, and the result of \<open>processImage\<close> is the same in
  every world whose encoder returns the same for that one quality, whatever it returns
  for any other.
\<close>

theorem image_quality:
  "(snd (processImage st w f options) = Resolved r \<longrightarrow>
      toBlob w (file_type f) (if preserveQuality options then 95 / 100 else 8 / 10)
        = map_option file_content (processedFile r) \<and>
      processedFile r \<noteq> None) \<and>
   (enc (file_type f) (if preserveQuality options then 95 / 100 else 8 / 10)
      = toBlob w (file_type f) (if preserveQuality options then 95 / 100 else 8 / 10) \<longrightarrow>
    processImage st (w\<lparr>toBlob := enc\<rparr>) f options = processImage st w f options)"
proof (intro conjI impI)
  assume res: "snd (processImage st w f options) = Resolved r"
  then obtain wd ht md where fin: "finishImage w f options wd ht md = Resolved r"
    using processImage_finish by blast
  from finishImage_content [OF fin]
  show "toBlob w (file_type f) (if preserveQuality options then 95 / 100 else 8 / 10)
        = map_option file_content (processedFile r)" .
  from processImage_Resolved [OF res] show "processedFile r \<noteq> None" by simp
next
  assume e: "enc (file_type f) (if preserveQuality options then 95 / 100 else 8 / 10)
      = toBlob w (file_type f) (if preserveQuality options then 95 / 100 else 8 / 10)"
  show "processImage st (w\<lparr>toBlob := enc\<rparr>) f options = processImage st w f options"
  proof -
    have "readAsDataURL (w\<lparr>toBlob := enc\<rparr>) = readAsDataURL w"
      and "decodeImage (w\<lparr>toBlob := enc\<rparr>) = decodeImage w"
      by simp_all
    then show ?thesis
      unfolding processImage_def Let_def initializeCanvas_toBlob_update
        onloadImage_toBlob_update [where enc = enc and f = f and options = options and w = w, OF e]
      by (simp only:)
  qed
qed

theorem image_quality_witness:
  "Option.bind (resolved (snd (processImage uninitialized offline_world photo_jpg safe_gps_options)))
     (map_option file_content \<circ> processedFile) = sample_encoder ''image/jpeg'' (95 / 100) \<and>
   Option.bind (resolved (snd (processImage uninitialized offline_world photo_jpg no_options)))
     (map_option file_content \<circ> processedFile) = sample_encoder ''image/jpeg'' (8 / 10) \<and>
   sample_encoder ''image/jpeg'' (95 / 100) = Some [1, 2, 3, 4, 5] \<and>
   sample_encoder ''image/jpeg'' (8 / 10) = Some [1, 2, 3] \<and>
   strict_encoder ''image/jpeg'' (8 / 10) = None \<and>
   processImage uninitialized (offline_world\<lparr>toBlob := strict_encoder\<rparr>) photo_jpg
     safe_gps_options
     = processImage uninitialized offline_world photo_jpg safe_gps_options"
proof -
  obtain r1 where r1:
    "snd (processImage uninitialized offline_world photo_jpg safe_gps_options) = Resolved r1"
    by (simp add: eval_defs)
  obtain r2 where r2:
    "snd (processImage uninitialized offline_world photo_jpg no_options) = Resolved r2"
    by (simp add: eval_defs)
  have q1: "preserveQuality safe_gps_options" and q2: "\<not> preserveQuality no_options"
    by (simp_all add: safe_gps_options_def no_options_def)
  have w: "toBlob offline_world = sample_encoder" and ty: "file_type photo_jpg = ''image/jpeg''"
    by (simp_all add: offline_world_def photo_jpg_def)
  from image_quality [where enc = sample_encoder and r = r1,
      THEN conjunct1, rule_format, OF r1, THEN conjunct1]
  have a: "map_option file_content (processedFile r1) = sample_encoder ''image/jpeg'' (95 / 100)"
    by (simp only: q1 w ty if_True)
  from image_quality [where enc = sample_encoder and r = r2,
      THEN conjunct1, rule_format, OF r2, THEN conjunct1]
  have b: "map_option file_content (processedFile r2) = sample_encoder ''image/jpeg'' (8 / 10)"
    by (simp only: q2 w ty if_False)
  have c: "sample_encoder ''image/jpeg'' (95 / 100) = Some [1, 2, 3, 4, 5]"
    "sample_encoder ''image/jpeg'' (8 / 10) = Some [1, 2, 3]"
    by (simp_all add: sample_encoder_def)
  have d: "strict_encoder ''image/jpeg'' (8 / 10) = None"
    by (simp add: strict_encoder_def)
  have "strict_encoder (file_type photo_jpg)
          (if preserveQuality safe_gps_options then 95 / 100 else 8 / 10)
        = toBlob offline_world (file_type photo_jpg)
            (if preserveQuality safe_gps_options then 95 / 100 else 8 / 10)"
    by (simp add: q1 w strict_encoder_def sample_encoder_def)
  from image_quality [where enc = strict_encoder and r = r1,
      THEN conjunct2, rule_format, OF this]
  have e: "processImage uninitialized (offline_world\<lparr>toBlob := strict_encoder\<rparr>) photo_jpg
     safe_gps_options
     = processImage uninitialized offline_world photo_jpg safe_gps_options" .
  show ?thesis
    unfolding r1 r2 resolved_def using a b c d e by simp
qed

section \<open>Properties of the video path\<close>

lemma video_not_image: "startsWith t ''video/'' \<Longrightarrow> \<not> startsWith t ''image/''"
  by (auto simp: startsWith_def)

lemma process_video:
  "startsWith (file_type f) ''video/'' \<Longrightarrow>
     process st w f options = (st, processVideo w f options)"
  by (simp add: process_def video_not_image)

lemma processVideo_unfold:
  assumes "analyzeFile w f = Resolved aiReport" and "generateFakeMetadata w = Resolved fake"
  shows "processVideo w f options =
           (case videoMetadata w f aiReport of
              Inl e \<Rightarrow> RejectedWith e
            | Inr md \<Rightarrow> Resolved (videoResult w f options
                (if generateFakeData options then overlayFakeVideo fake md else md)))"
  using assms by (simp add: processVideo_def split: sum.splits)

lemma videoMetadata_Inr:
  "videoMetadata w f aiReport = Inr md \<Longrightarrow>
     validTime (file_lastModified f) \<and>
     (\<exists>a recs. aiReport = JsonObject a \<and> spreadOrEmpty (ai_recommendations a) = Some recs \<and>
        md = videoReport w f a recs)"
  by (auto simp: videoMetadata_def split: if_splits parsed.splits option.splits)

text \<open>
  C6, as the code has it. A video (a file whose type begins with \<open>video/\<close>) is processed to
  a \<open>completed\<close> result when its report can be built: its \<^verbatim>\<open>lastModified\<close> is a valid
  time, the AI report is not \<^verbatim>\<open>null\<close>, and the recommendations of the AI report are
  absent, falsy or iterable. The output file is then the input with the name prefixed by
  \<open>shielded_\<close>: same type, same bytes. The report gives the size of the input as original
  and as processed size, and its recommendations are the elements of those of the AI
  report followed by the one that announces the scrubbing of the container headers. When
  the report cannot be built, \<open>processVideo\<close> rejects with the error of the engine (which
  the batch turns into a \<open>failed\<close> entry).
\<close>

theorem video_copied:
  assumes vid: "startsWith (file_type f) ''video/''"
  shows "\<exists>aiReport. analyzeFile w f = Resolved aiReport \<and>
      (\<not> validTime (file_lastModified f) \<longrightarrow>
         process st w f options = (st, RejectedWith (invalidTimeMessage w))) \<and>
      (validTime (file_lastModified f) \<and> aiReport = JsonNull \<longrightarrow>
         process st w f options = (st, RejectedWith (nullPropertyMessage w))) \<and>
      (\<forall>a. validTime (file_lastModified f) \<and> aiReport = JsonObject a \<and>
            spreadOrEmpty (ai_recommendations a) = None \<longrightarrow>
         process st w f options = (st, RejectedWith (notIterableMessage w))) \<and>
      (\<forall>a recs. validTime (file_lastModified f) \<and> aiReport = JsonObject a \<and>
            spreadOrEmpty (ai_recommendations a) = Some recs \<longrightarrow>
         (\<exists>r. process st w f options = (st, Resolved r) \<and> status r = completed \<and>
            processedFile r = Some
              \<lparr> file_name = ''shielded_'' @ file_name f,
                file_type = file_type f,
                file_lastModified =
                  (if changeDates options then now_output w else file_lastModified f),
                file_content = file_content f \<rparr> \<and>
            originalSize (metadata r) = file_size f \<and>
            processedSize (metadata r) = Some (file_size f) \<and>
            recommendations (metadata r) = Some
              (JArr (recs @ [JStr ''Scrubbing video container headers...'']))))"
proof -
  obtain aiReport where ai: "analyzeFile w f = Resolved aiReport"
    using analyzeFile_resolves by blast
  obtain fake where fk: "generateFakeMetadata w = Resolved fake"
    using generateFakeMetadata_resolves by blast
  show ?thesis
    unfolding process_video [OF vid] processVideo_unfold [OF ai fk]
    using ai
    by (auto simp: videoMetadata_def videoResult_def videoReport_def overlayFakeVideo_def
        Let_def)
qed

theorem video_copied_witness:
  "startsWith (file_type clip_mp4) ''video/'' \<and>
   validTime (file_lastModified clip_mp4) \<and>
   analyzeFile offline_world clip_mp4
     = Resolved (JsonObject (simulateAnalysis offline_world clip_mp4)) \<and>
   spreadOrEmpty (ai_recommendations (simulateAnalysis offline_world clip_mp4))
     = Some [JStr rec_remove_metadata, JStr rec_rename_file, JStr rec_geo_masking] \<and>
   (\<exists>r. process uninitialized offline_world clip_mp4 all_options = (uninitialized, Resolved r) \<and>
      status r = completed \<and>
      map_option file_content (processedFile r) = Some [0, 0, 0, 24, 102] \<and>
      map_option file_name (processedFile r) = Some ''shielded_clip.mp4'' \<and>
      originalSize (metadata r) = 5 \<and> processedSize (metadata r) = Some 5 \<and>
      recommendations (metadata r) = Some
        (JArr [JStr rec_remove_metadata, JStr rec_rename_file, JStr rec_geo_masking,
               JStr ''Scrubbing video container headers...'']))"
proof -
  let ?a = "simulateAnalysis offline_world clip_mp4"
  let ?recs = "[JStr rec_remove_metadata, JStr rec_rename_file, JStr rec_geo_masking]"
  have vid: "startsWith (file_type clip_mp4) ''video/''"
    by (simp add: startsWith_def clip_mp4_def)
  have lm: "validTime (file_lastModified clip_mp4)"
    by (simp add: validTime_def clip_mp4_def)
  have ai: "analyzeFile offline_world clip_mp4 = Resolved (JsonObject ?a)"
    using lm by (simp add: analyzeFile_def analyzeFile_try_def offline_world_def)
  have sp: "spreadOrEmpty (ai_recommendations ?a) = Some ?recs"
    by (simp add: simulateAnalysis_def spreadOrEmpty_def truthyValue_def)
  from video_copied [OF vid, of offline_world uninitialized all_options]
  obtain aiReport where air: "analyzeFile offline_world clip_mp4 = Resolved aiReport"
    and ok: "\<forall>a recs. validTime (file_lastModified clip_mp4) \<and> aiReport = JsonObject a \<and>
            spreadOrEmpty (ai_recommendations a) = Some recs \<longrightarrow>
         (\<exists>r. process uninitialized offline_world clip_mp4 all_options
                 = (uninitialized, Resolved r) \<and> status r = completed \<and>
            processedFile r = Some
              \<lparr> file_name = ''shielded_'' @ file_name clip_mp4,
                file_type = file_type clip_mp4,
                file_lastModified =
                  (if changeDates all_options then now_output offline_world
                   else file_lastModified clip_mp4),
                file_content = file_content clip_mp4 \<rparr> \<and>
            originalSize (metadata r) = file_size clip_mp4 \<and>
            processedSize (metadata r) = Some (file_size clip_mp4) \<and>
            recommendations (metadata r) = Some
              (JArr (recs @ [JStr ''Scrubbing video container headers...''])))"
    by blast
  from air ai have "aiReport = JsonObject ?a" by simp
  with ok [rule_format, of ?a ?recs] lm sp
  obtain r where "process uninitialized offline_world clip_mp4 all_options
                 = (uninitialized, Resolved r)" "status r = completed"
    "processedFile r = Some
              \<lparr> file_name = ''shielded_'' @ file_name clip_mp4,
                file_type = file_type clip_mp4,
                file_lastModified =
                  (if changeDates all_options then now_output offline_world
                   else file_lastModified clip_mp4),
                file_content = file_content clip_mp4 \<rparr>"
    "originalSize (metadata r) = file_size clip_mp4"
    "processedSize (metadata r) = Some (file_size clip_mp4)"
    "recommendations (metadata r) = Some
              (JArr (?recs @ [JStr ''Scrubbing video container headers...'']))"
    by blast
  then have "\<exists>r. process uninitialized offline_world clip_mp4 all_options
        = (uninitialized, Resolved r) \<and>
      status r = completed \<and>
      map_option file_content (processedFile r) = Some [0, 0, 0, 24, 102] \<and>
      map_option file_name (processedFile r) = Some ''shielded_clip.mp4'' \<and>
      originalSize (metadata r) = 5 \<and> processedSize (metadata r) = Some 5 \<and>
      recommendations (metadata r) = Some
        (JArr [JStr rec_remove_metadata, JStr rec_rename_file, JStr rec_geo_masking,
               JStr ''Scrubbing video container headers...''])"
    by (intro exI [of _ r]) (simp add: clip_mp4_def file_size_def)
  with vid lm ai sp show ?thesis by (intro conjI)
qed

text \<open>
  The sentence of the specification fails for a video whose report cannot be built: when
  the service answers the analysis request with the JSON text \<^verbatim>\<open>null\<close>, or when
  \<^verbatim>\<open>lastModified\<close> lies beyond the range of dates, \<open>processVideo\<close> rejects and the entry of
  the video in the batch is \<open>failed\<close>, with no output file.
\<close>

theorem video_rejected_counterexample:
  "process uninitialized null_world clip_mp4 no_options
     = (uninitialized, RejectedWith ''Cannot read properties of null'') \<and>
   process uninitialized offline_world late_mp4 no_options
     = (uninitialized, RejectedWith ''Invalid time value'') \<and>
   map_option (map status \<circ> snd) (processBatch null_env uninitialized [clip_mp4] no_options)
     = Some [failed] \<and>
   map_option (map processedFile \<circ> snd)
     (processBatch null_env uninitialized [clip_mp4] no_options)
     = Some [None]"
  by (simp add: eval_defs null_world_def null_env_def late_mp4_def)

lemma videoResult_metadata_changeDates:
  "metadata (videoResult w f (options\<lparr>safeMode := sm, removeGPS := gps, changeDates := cd\<rparr>) md)
     = metadata (videoResult w f options md)"
  by (simp add: videoResult_def Let_def)

text \<open>
  C10. In the report of a processed video, whatever the options are, \<open>safeModeApplied\<close>
  and \<open>hasGPS\<close> are not set, the findings and the risk level are those of the AI report,
  and the creation date is the ISO string of the input's \<open>lastModified\<close>. Without
  \<open>generateFakeData\<close> the location is \<open>Likely Embedded\<close> and the device comes from the AI
  report; with it, both come from the decoy (or its two default labels) and the flag
  \<open>generatedFakeData\<close> is set. Changing \<open>safeMode\<close>, \<open>removeGPS\<close> and \<open>changeDates\<close> in any
  way gives a result again, with the whole report as it is.
\<close>

theorem video_options_frame:
  assumes vid: "startsWith (file_type f) ''video/''"
    and res: "process st w f options = (st', Resolved r)"
  shows "\<exists>a fake.
           analyzeFile w f = Resolved (JsonObject a) \<and> generateFakeMetadata w = Resolved fake \<and>
           safeModeApplied (metadata r) = None \<and> hasGPS (metadata r) = None \<and>
           sensitiveData (metadata r) = ai_sensitiveData a \<and>
           riskLevel (metadata r) = ai_riskLevel a \<and>
           creationDate (metadata r) = Some (ISOString (file_lastModified f)) \<and>
           modificationDate (metadata r) = Some (ISOString (now_report w)) \<and>
           location (metadata r) = Some
             (if generateFakeData options
              then or_literal (fake_location fake) ''Synthetic Location''
              else ''Likely Embedded'') \<and>
           device (metadata r) = Some
             (if generateFakeData options
              then or_literal (fake_device fake) ''Decoy Device''
              else or_literal (deviceInfo a) ''Video Footprint Detected'') \<and>
           generatedFakeData (metadata r) =
             (if generateFakeData options then Some True else None) \<and>
           (\<forall>sm gps cd. \<exists>r'.
              process st w f (options\<lparr>safeMode := sm, removeGPS := gps, changeDates := cd\<rparr>)
                = (st, Resolved r') \<and>
              metadata r' = metadata r)"
proof -
  obtain aiReport where ai: "analyzeFile w f = Resolved aiReport"
    using analyzeFile_resolves by blast
  obtain fake where fk: "generateFakeMetadata w = Resolved fake"
    using generateFakeMetadata_resolves by blast
  from res have pv: "processVideo w f options = Resolved r"
    by (simp add: process_video [OF vid])
  then obtain md where md: "videoMetadata w f aiReport = Inr md"
    and r: "r = videoResult w f options
                  (if generateFakeData options then overlayFakeVideo fake md else md)"
    unfolding processVideo_unfold [OF ai fk] by (auto split: sum.splits)
  from videoMetadata_Inr [OF md] obtain a recs where a: "aiReport = JsonObject a"
    and mdr: "md = videoReport w f a recs" by blast
  have other: "processVideo w f (options\<lparr>safeMode := sm, removeGPS := gps, changeDates := cd\<rparr>)
      = Resolved (videoResult w f (options\<lparr>safeMode := sm, removeGPS := gps, changeDates := cd\<rparr>)
                  (if generateFakeData options then overlayFakeVideo fake md else md))"
    for sm gps cd
    unfolding processVideo_unfold [OF ai fk] md by simp
  show ?thesis
    unfolding process_video [OF vid] other videoResult_metadata_changeDates
    using ai fk a
    by (simp add: r mdr videoResult_def videoReport_def overlayFakeVideo_def Let_def)
qed

theorem video_options_frame_witness:
  "startsWith (file_type clip_mp4) ''video/'' \<and>
   (\<exists>r. process uninitialized offline_world clip_mp4 safe_gps_options
           = (uninitialized, Resolved r) \<and>
      safeModeApplied (metadata r) = None \<and> hasGPS (metadata r) = None \<and>
      sensitiveData (metadata r) = Some [finding_filename_digits, finding_container] \<and>
      riskLevel (metadata r) = Some medium \<and>
      creationDate (metadata r) = Some (ISOString 1700000000000) \<and>
      location (metadata r) = Some ''Likely Embedded'' \<and>
      (\<exists>r'. process uninitialized offline_world clip_mp4
              (safe_gps_options\<lparr>safeMode := False, removeGPS := False, changeDates := True\<rparr>)
              = (uninitialized, Resolved r') \<and>
         metadata r' = metadata r))"
proof -
  have vid: "startsWith (file_type clip_mp4) ''video/''"
    by (simp add: startsWith_def clip_mp4_def)
  have ai: "analyzeFile offline_world clip_mp4
      = Resolved (JsonObject (simulateAnalysis offline_world clip_mp4))"
    by (simp add: analyzeFile_def analyzeFile_try_def offline_world_def validTime_def
        clip_mp4_def)
  have nofake: "\<not> generateFakeData safe_gps_options"
    by (simp add: safe_gps_options_def)
  obtain r where res: "process uninitialized offline_world clip_mp4 safe_gps_options
      = (uninitialized, Resolved r)"
    by (simp add: eval_defs)
  have "\<exists>a fake.
           analyzeFile offline_world clip_mp4 = Resolved (JsonObject a) \<and>
           generateFakeMetadata offline_world = Resolved fake \<and>
           safeModeApplied (metadata r) = None \<and> hasGPS (metadata r) = None \<and>
           sensitiveData (metadata r) = ai_sensitiveData a \<and>
           riskLevel (metadata r) = ai_riskLevel a \<and>
           creationDate (metadata r) = Some (ISOString (file_lastModified clip_mp4)) \<and>
           modificationDate (metadata r) = Some (ISOString (now_report offline_world)) \<and>
           location (metadata r) = Some
             (if generateFakeData safe_gps_options
              then or_literal (fake_location fake) ''Synthetic Location''
              else ''Likely Embedded'') \<and>
           device (metadata r) = Some
             (if generateFakeData safe_gps_options
              then or_literal (fake_device fake) ''Decoy Device''
              else or_literal (deviceInfo a) ''Video Footprint Detected'') \<and>
           generatedFakeData (metadata r) =
             (if generateFakeData safe_gps_options then Some True else None) \<and>
           (\<forall>sm gps cd. \<exists>r'.
              process uninitialized offline_world clip_mp4
                (safe_gps_options\<lparr>safeMode := sm, removeGPS := gps, changeDates := cd\<rparr>)
                = (uninitialized, Resolved r') \<and>
              metadata r' = metadata r)"
    (is "\<exists>a fake. ?P a fake")
    by (rule video_options_frame [OF vid res])
  then obtain a fake where all: "?P a fake"
    by (elim exE)
  from all have c:
    "analyzeFile offline_world clip_mp4 = Resolved (JsonObject a)"
    "safeModeApplied (metadata r) = None" "hasGPS (metadata r) = None"
    "sensitiveData (metadata r) = ai_sensitiveData a"
    "riskLevel (metadata r) = ai_riskLevel a"
    "creationDate (metadata r) = Some (ISOString (file_lastModified clip_mp4))"
    "location (metadata r) = Some
             (if generateFakeData safe_gps_options
              then or_literal (fake_location fake) ''Synthetic Location''
              else ''Likely Embedded'')"
    "\<forall>sm gps cd. \<exists>r'.
        process uninitialized offline_world clip_mp4
          (safe_gps_options\<lparr>safeMode := sm, removeGPS := gps, changeDates := cd\<rparr>)
          = (uninitialized, Resolved r') \<and>
        metadata r' = metadata r"
    by simp_all
  from ai c(1) have air: "a = simulateAnalysis offline_world clip_mp4"
    by simp
  have s: "ai_sensitiveData a = Some [finding_filename_digits, finding_container]"
    "ai_riskLevel a = Some medium"
    unfolding air by (simp_all add: simulateAnalysis_def clip_mp4_def startsWith_def)
  from c(8) have "\<exists>r'. process uninitialized offline_world clip_mp4
              (safe_gps_options\<lparr>safeMode := False, removeGPS := False, changeDates := True\<rparr>)
              = (uninitialized, Resolved r') \<and> metadata r' = metadata r"
    by blast
  with res c(2,3,4,5,6,7) s nofake vid show ?thesis
    by (simp add: clip_mp4_def)
qed

end
